theory Spec2Isabelle
  imports Complex_Main "HOL-Library.Multiset" "HOL-Library.Log_Nat" "HOL-Library.Product_Lexorder"
begin

section \<open>JavaScript numbers\<close>

text \<open>
  A JavaScript \<^verbatim>\<open>number\<close> is an IEEE 754 double: a finite value, one of the two
  infinities, or NaN. A finite double is kept as the rational it denotes, and the result
  of an addition or subtraction is the exact result rounded to the nearest double, a tie
  going to the even mantissa, as the standard has it. The negative zero is not told
  apart from zero: nothing in the code modelled here reads the sign of a zero. The type
  holds every rational, also those that are no doubles; every result of an operation is
  a double.
\<close>

datatype number = Finite rat | Infinity | Neg_Infinity | NaN

fun negate :: "number \<Rightarrow> number" where
  "negate (Finite q) = Finite (- q)"
| "negate Infinity = Neg_Infinity"
| "negate Neg_Infinity = Infinity"
| "negate NaN = NaN"

text \<open>The exponent of the leading binary digit of a positive rational.\<close>

definition floor_log2 :: "rat \<Rightarrow> int" where
  "floor_log2 x =
     (let k = bitlen (fst (quotient_of x)) - bitlen (snd (quotient_of x))
      in if 2 powi k \<le> x then k else k - 1)"

definition round_half_even :: "rat \<Rightarrow> int" where
  "round_half_even y =
     (let f = \<lfloor>y\<rfloor>; d = y - of_int f
      in if d < 1 / 2 then f else if 1 / 2 < d then f + 1 else if even f then f else f + 1)"

text \<open>
  A double has a mantissa of 53 binary digits; its last digit weighs at least
  \<open>2 powi emin\<close>, and the doubles end below \<open>2 powi emax\<close>.
\<close>

definition emin :: int where
  "emin = - 1074"

definition emax :: int where
  "emax = 1024"

definition round64_pos :: "rat \<Rightarrow> number" where
  "round64_pos x =
     (let e = max (floor_log2 x - 52) emin;
          m = round_half_even (x / 2 powi e);
          r = of_int m * 2 powi e
      in if emax \<le> floor_log2 r then Infinity else Finite r)"

definition round64 :: "rat \<Rightarrow> number" where
  "round64 x =
     (if x = 0 then Finite 0
      else if 0 < x then round64_pos x
      else negate (round64_pos (- x)))"

text \<open>The operators \<^verbatim>\<open>+\<close> and \<^verbatim>\<open>-\<close> on numbers.\<close>

fun number_plus :: "number \<Rightarrow> number \<Rightarrow> number" where
  "number_plus (Finite a) (Finite b) = round64 (a + b)"
| "number_plus NaN _ = NaN"
| "number_plus _ NaN = NaN"
| "number_plus Infinity Neg_Infinity = NaN"
| "number_plus Neg_Infinity Infinity = NaN"
| "number_plus Infinity _ = Infinity"
| "number_plus _ Infinity = Infinity"
| "number_plus Neg_Infinity _ = Neg_Infinity"
| "number_plus _ Neg_Infinity = Neg_Infinity"

definition number_minus :: "number \<Rightarrow> number \<Rightarrow> number" where
  "number_minus a b = number_plus a (negate b)"

text \<open>\<^verbatim>\<open>v > 0\<close>, \<^verbatim>\<open>a <= b\<close>, and the numbers that are falsy: 0 and NaN.\<close>

fun positive :: "number \<Rightarrow> bool" where
  "positive (Finite q) = (0 < q)"
| "positive Infinity = True"
| "positive _ = False"


definition falsy_number :: "number \<Rightarrow> bool" where
  "falsy_number v \<longleftrightarrow> v = Finite 0 \<or> v = NaN"

text \<open>
  Every finite result of a rounding is a whole multiple of \<open>2 powi emin\<close>; a number on
  this grid that is not zero is not rounded to zero.
\<close>

definition on_grid :: "number \<Rightarrow> bool" where
  "on_grid v \<longleftrightarrow> (case v of Finite q \<Rightarrow> (\<exists>k::int. q = of_int k * 2 powi emin) | _ \<Rightarrow> True)"

section \<open>Data model (section 2 of the source, \<^verbatim>\<open>types.ts\<close>)\<close>

text \<open>
  The TypeScript interfaces become records. Field names that several interfaces share
  (\<^verbatim>\<open>id\<close>, \<^verbatim>\<open>type\<close>, \<^verbatim>\<open>name\<close>, \<^verbatim>\<open>color\<close>) carry the interface as a prefix.
  The string literal types \<^verbatim>\<open>'expense' | 'income' | 'note'\<close> become constructors,
  capitalised.
\<close>

datatype EntryType = Expense | Income | Note

datatype MediaType = Image | Audio | Drawing

record MediaAttachment =
  media_id :: string
  media_type :: MediaType
  media_data :: string

record Entry =
  entry_id :: string
  entry_type :: EntryType
  amount :: number
  category :: string
  tags :: "string list"
  content :: string
  date :: string
  media :: "MediaAttachment list"

record StatGroup =
  group_name :: string
  group_value :: number
  group_color :: string

definition COLORS :: "string list" where
  "COLORS =
     [''#6366f1'', ''#ec4899'', ''#10b981'', ''#f59e0b'', ''#3b82f6'',
      ''#8b5cf6'', ''#ef4444'', ''#64748b'', ''#14b8a6'', ''#f97316'']"

section \<open>Statistics aggregation (\<^verbatim>\<open>StatsPage\<close>)\<close>

subsection \<open>Dates\<close>

text \<open>
  A JavaScript \<^verbatim>\<open>Date\<close> is either the invalid date or an instant, of which the page reads
  only the local-calendar fields (\<^verbatim>\<open>getFullYear\<close>, \<^verbatim>\<open>getMonth\<close> counted from 0,
  \<^verbatim>\<open>getDate\<close>). The parser \<^verbatim>\<open>parseISO\<close> belongs to the date-fns library and reads the
  host's time zone, so the page's functions take it as a parameter.
\<close>

datatype Date = Invalid_Date | Local_Date (getFullYear: int) (getMonth: nat) (getDate: nat)

text \<open>
  date-fns \<^verbatim>\<open>isSameMonth\<close>: both years and both months are compared with \<^verbatim>\<open>===\<close>; on an
  invalid date the getters return NaN, which is equal to nothing.
\<close>

fun isSameMonth :: "Date \<Rightarrow> Date \<Rightarrow> bool" where
  "isSameMonth (Local_Date y1 m1 d1) (Local_Date y2 m2 d2) = (y1 = y2 \<and> m1 = m2)"
| "isSameMonth _ _ = False"

text \<open>
  \<^verbatim>\<open>
  const filteredEntries = entries.filter(e => {
      const entryDate = parseISO(e.date);
      const matchesMonth = isSameMonth(entryDate, currentMonth);
      const matchesType = e.type === activeTab;
      return matchesMonth && matchesType;
  });
  \<close>
\<close>

definition filteredEntries ::
  "(string \<Rightarrow> Date) \<Rightarrow> Entry list \<Rightarrow> Date \<Rightarrow> EntryType \<Rightarrow> Entry list" where
  "filteredEntries parseISO entries currentMonth activeTab =
     filter (\<lambda>e.
       let entryDate = parseISO (date e);
           matchesMonth = isSameMonth entryDate currentMonth;
           matchesType = (entry_type e = activeTab)
       in matchesMonth \<and> matchesType) entries"

text \<open>
  The calendar-date form \<^verbatim>\<open>YYYY-MM-DD\<close> of ISO 8601, which \<^verbatim>\<open>parseISO\<close> reads as local
  midnight of that day whatever the time zone. Everything else is left to the parameter;
  this fragment serves the concrete examples.
\<close>

definition digit_val :: "char \<Rightarrow> nat option" where
  "digit_val c =
     (let n = (of_char c :: nat) in if 48 \<le> n \<and> n \<le> 57 then Some (n - 48) else None)"

fun digits_val :: "string \<Rightarrow> nat option" where
  "digits_val [] = Some 0"
| "digits_val cs =
     (case (digits_val (butlast cs), digit_val (last cs)) of
        (Some n, Some d) \<Rightarrow> Some (10 * n + d)
      | _ \<Rightarrow> None)"

definition days_in_month :: "nat \<Rightarrow> nat \<Rightarrow> nat" where
  "days_in_month y m =
     (if m = 2 then (if y mod 4 = 0 \<and> (y mod 100 \<noteq> 0 \<or> y mod 400 = 0) then 29 else 28)
      else if m \<in> {4, 6, 9, 11} then 30 else 31)"

definition parseISO_calendar :: "string \<Rightarrow> Date" where
  "parseISO_calendar s =
     (if length s = 10 \<and> s ! 4 = CHR ''-'' \<and> s ! 7 = CHR ''-'' then
        (case (digits_val (take 4 s), digits_val (take 2 (drop 5 s)), digits_val (drop 8 s)) of
           (Some y, Some m, Some d) \<Rightarrow>
             if 1 \<le> m \<and> m \<le> 12 \<and> 1 \<le> d \<and> d \<le> days_in_month y m
             then Local_Date (int y) (m - 1) d else Invalid_Date
         | _ \<Rightarrow> Invalid_Date)
      else Invalid_Date)"

subsection \<open>Grouping by category\<close>

text \<open>
  A JavaScript \<^verbatim>\<open>Map\<close> keeps its keys in the order of their first insertion; \<^verbatim>\<open>set\<close> on a
  key that is present replaces the value where it stands. It is an association list.
\<close>

fun Map_get :: "('k \<times> 'v) list \<Rightarrow> 'k \<Rightarrow> 'v option" where
  "Map_get [] k = None"
| "Map_get ((k', v) # m) k = (if k' = k then Some v else Map_get m k)"

fun Map_set :: "'k \<Rightarrow> 'v \<Rightarrow> ('k \<times> 'v) list \<Rightarrow> ('k \<times> 'v) list" where
  "Map_set k v [] = [(k, v)]"
| "Map_set k v ((k', v') # m) = (if k' = k then (k, v) # m else (k', v') # Map_set k v m)"

text \<open>
  \<^verbatim>\<open>map.get(e.category) || 0\<close>: \<^verbatim>\<open>undefined\<close> gives 0, and so does a falsy number, 0 or NaN.
\<close>

definition get_or_0 :: "(string \<times> number) list \<Rightarrow> string \<Rightarrow> number" where
  "get_or_0 m k =
     (case Map_get m k of None \<Rightarrow> Finite 0 | Some v \<Rightarrow> if falsy_number v then Finite 0 else v)"

definition group_step :: "(string \<times> number) list \<Rightarrow> Entry \<Rightarrow> (string \<times> number) list" where
  "group_step m e = Map_set (category e) (number_plus (get_or_0 m (category e)) (amount e)) m"

text \<open>
  \<^verbatim>\<open>Array.prototype.sort(comparefn)\<close> is stable (ECMAScript 2019): an insertion sort in
  which an element passes those it compares greater than, \<^verbatim>\<open>comparefn(x, y) > 0\<close>, and
  stops before the first other one; a comparison that gives NaN counts as 0. Where the
  comparator is not consistent the standard leaves the order to the engine.
\<close>

fun insert_cmp :: "('a \<Rightarrow> 'a \<Rightarrow> number) \<Rightarrow> 'a \<Rightarrow> 'a list \<Rightarrow> 'a list" where
  "insert_cmp cmp x [] = [x]"
| "insert_cmp cmp x (y # ys) =
     (if positive (cmp x y) then y # insert_cmp cmp x ys else x # y # ys)"

definition Array_sort :: "('a \<Rightarrow> 'a \<Rightarrow> number) \<Rightarrow> 'a list \<Rightarrow> 'a list" where
  "Array_sort cmp xs = foldr (insert_cmp cmp) xs []"

text \<open>
  \<^verbatim>\<open>
  const map = new Map();
  filteredEntries.forEach(e => {
    map.set(e.category, (map.get(e.category) || 0) + e.amount);
  });
  return Array.from(map.entries())
    .map(([name, value], index) => ({ name, value, color: COLORS[index % COLORS.length] }))
    .sort((a, b) => b.value - a.value);
  \<close>
\<close>

definition dataByCategory :: "Entry list \<Rightarrow> StatGroup list" where
  "dataByCategory filtered =
     (let m = foldl group_step [] filtered
      in Array_sort (\<lambda>a b. number_minus (group_value b) (group_value a))
           (map (\<lambda>(index, (name, v)).
                  \<lparr>group_name = name, group_value = v,
                   group_color = COLORS ! (index mod length COLORS)\<rparr>)
                (enumerate 0 m)))"

subsection \<open>The aggregation as the specification words it\<close>







definition sortable :: "StatGroup list \<Rightarrow> bool" where
  "sortable gs \<longleftrightarrow> (\<forall>g \<in> set gs. on_grid (group_value g) \<and> group_value g \<noteq> NaN)"

section \<open>The ledger store (section 3 of the source, \<^verbatim>\<open>storageService\<close>)\<close>

subsection \<open>JavaScript values and the host's JSON object\<close>

text \<open>
  What \<^verbatim>\<open>JSON.parse\<close> returns: the store reads its collections back untyped, so an entry or
  a category in the store is a value of this type. An object is the list of its own
  properties; \<^verbatim>\<open>undefined\<close> is \<open>None\<close> where a property is read.
\<close>

datatype json =
    JNull
  | JBool bool
  | JNumber number
  | JString string
  | JArray "json list"
  | JObject "(string \<times> json) list"

datatype js_error = SyntaxError | TypeError | SecurityError | QuotaExceededError

text \<open>
  \<^verbatim>\<open>JSON.parse\<close> and \<^verbatim>\<open>JSON.stringify\<close> are built into the host, not written in this
  repository: the store's functions take them as a parameter. \<open>JSON_parse\<close> gives \<open>None\<close>
  where the built-in throws a SyntaxError; the first argument of \<open>JSON_stringify\<close> is the
  indentation (\<^verbatim>\<open>JSON.stringify(v)\<close> is indentation 0, \<^verbatim>\<open>JSON.stringify(v, null, 2)\<close> is 2).
\<close>

record JSON =
  JSON_parse :: "string \<Rightarrow> json option"
  JSON_stringify :: "nat \<Rightarrow> json \<Rightarrow> string"

text \<open>
  What a value reads back as once \<^verbatim>\<open>JSON.stringify\<close> has written it: itself, except that
  an infinity or NaN is written \<^verbatim>\<open>null\<close>.
\<close>

fun as_written :: "json \<Rightarrow> json" where
  "as_written (JNumber x) = (case x of Finite q \<Rightarrow> JNumber x | _ \<Rightarrow> JNull)"
| "as_written (JArray vs) = JArray (map as_written vs)"
| "as_written (JObject kvs) = JObject (map (\<lambda>(k, v). (k, as_written v)) kvs)"
| "as_written v = v"

text \<open>
  The law of the built-ins that the store relies on: a value written out reads back as
  \<open>as_written\<close> gives it, and its text is never the empty string.
\<close>

definition JSON_faithful :: "JSON \<Rightarrow> bool" where
  "JSON_faithful J \<longleftrightarrow>
     (\<forall>n v. JSON_parse J (JSON_stringify J n v) = Some (as_written v) \<and>
            JSON_stringify J n v \<noteq> [])"

text \<open>
  Reading a property, \<^verbatim>\<open>v.k\<close>: a TypeError on \<^verbatim>\<open>null\<close>, the own property of an object,
  and for every other value \<open>None\<close>, which stands for \<^verbatim>\<open>undefined\<close> and for the methods a
  string or an array inherits (used here for the keys \<^verbatim>\<open>id\<close>, \<^verbatim>\<open>entries\<close> and
  \<^verbatim>\<open>categories\<close> only; \<^verbatim>\<open>[].entries\<close> is a function, hence no array either).
\<close>

fun get_property :: "json \<Rightarrow> string \<Rightarrow> js_error + json option" where
  "get_property JNull k = Inl TypeError"
| "get_property (JObject kvs) k = Inr (Map_get kvs k)"
| "get_property _ k = Inr None"

text \<open>
  \<^verbatim>\<open>!data\<close> is true on the falsy values: \<^verbatim>\<open>null\<close>, \<^verbatim>\<open>false\<close>, 0, NaN and the empty
  string.
\<close>

fun truthy :: "json \<Rightarrow> bool" where
  "truthy JNull = False"
| "truthy (JBool b) = b"
| "truthy (JNumber n) = (\<not> falsy_number n)"
| "truthy (JString s) = (s \<noteq> [])"
| "truthy _ = True"

fun Array_isArray :: "json option \<Rightarrow> bool" where
  "Array_isArray (Some (JArray xs)) = True"
| "Array_isArray _ = False"

subsection \<open>The host's key-value storage\<close>

text \<open>
  \<^verbatim>\<open>localStorage\<close>: the stored items, the host's quota on their total size, and whether
  the host grants access at all. Without access every call throws a SecurityError; a
  write that would take the items beyond the quota throws a QuotaExceededError and
  stores nothing.
\<close>

record Storage =
  items :: "(string \<times> string) list"
  quota :: nat
  available :: bool

definition usage :: "(string \<times> string) list \<Rightarrow> nat" where
  "usage kvs = sum_list (map (\<lambda>(k, v). length k + length v) kvs)"

definition getItem :: "Storage \<Rightarrow> string \<Rightarrow> js_error + string option" where
  "getItem s k = (if available s then Inr (Map_get (items s) k) else Inl SecurityError)"

definition setItem :: "string \<Rightarrow> string \<Rightarrow> Storage \<Rightarrow> js_error + Storage" where
  "setItem k v s =
     (if \<not> available s then Inl SecurityError
      else if quota s < usage (Map_set k v (items s)) then Inl QuotaExceededError
      else Inr (s\<lparr>items := Map_set k v (items s)\<rparr>))"

text \<open>
  The world the store acts on: the storage, and what the store has shown or signalled so
  far (\<^verbatim>\<open>window.dispatchEvent\<close>, \<^verbatim>\<open>alert\<close>), oldest first. \<^verbatim>\<open>console.error\<close> is not
  recorded.
\<close>

datatype effect = Event string | Alert string

record World =
  localStorage :: Storage
  effects :: "effect list"

definition dispatchEvent :: "string \<Rightarrow> World \<Rightarrow> World" where
  "dispatchEvent name w = w\<lparr>effects := effects w @ [Event name]\<rparr>"

definition alert :: "string \<Rightarrow> World \<Rightarrow> World" where
  "alert msg w = w\<lparr>effects := effects w @ [Alert msg]\<rparr>"

text \<open>A call either returns or throws; the world it leaves stands beside the outcome.\<close>

datatype 'a completion = Normal 'a | Throw js_error

subsection \<open>Constants\<close>

definition STORAGE_KEY :: string where
  "STORAGE_KEY = ''zenledger_data''"

definition CATEGORY_STORAGE_KEY :: string where
  "CATEGORY_STORAGE_KEY = ''zenledger_categories''"

record Category =
  category_id :: string
  category_name :: string
  category_type :: EntryType
  category_color :: string

text \<open>The names of the built-in categories are Chinese words, given by their UTF-8 bytes.\<close>

definition DEFAULT_EXPENSE_CATEGORIES :: "Category list" where
  "DEFAULT_EXPENSE_CATEGORIES =
     [\<lparr>category_id = ''1'',
       category_name = [CHR 0xE9, CHR 0xA4, CHR 0x90, CHR 0xE9, CHR 0xA5, CHR 0xAE],
       category_type = Expense, category_color = COLORS ! 0\<rparr>,
      \<lparr>category_id = ''2'',
       category_name = [CHR 0xE4, CHR 0xBA, CHR 0xA4, CHR 0xE9, CHR 0x80, CHR 0x9A],
       category_type = Expense, category_color = COLORS ! 1\<rparr>,
      \<lparr>category_id = ''3'',
       category_name = [CHR 0xE5, CHR 0xB1, CHR 0x85, CHR 0xE4, CHR 0xBD, CHR 0x8F],
       category_type = Expense, category_color = COLORS ! 2\<rparr>,
      \<lparr>category_id = ''4'',
       category_name = [CHR 0xE6, CHR 0xB0, CHR 0xB4, CHR 0xE7, CHR 0x94, CHR 0xB5],
       category_type = Expense, category_color = COLORS ! 3\<rparr>,
      \<lparr>category_id = ''5'',
       category_name = [CHR 0xE5, CHR 0xA8, CHR 0xB1, CHR 0xE4, CHR 0xB9, CHR 0x90],
       category_type = Expense, category_color = COLORS ! 4\<rparr>,
      \<lparr>category_id = ''6'',
       category_name = [CHR 0xE5, CHR 0x8C, CHR 0xBB, CHR 0xE7, CHR 0x96, CHR 0x97],
       category_type = Expense, category_color = COLORS ! 5\<rparr>,
      \<lparr>category_id = ''7'',
       category_name = [CHR 0xE8, CHR 0xB4, CHR 0xAD, CHR 0xE7, CHR 0x89, CHR 0xA9],
       category_type = Expense, category_color = COLORS ! 6\<rparr>,
      \<lparr>category_id = ''8'',
       category_name = [CHR 0xE5, CHR 0x85, CHR 0xB6, CHR 0xE4, CHR 0xBB, CHR 0x96],
       category_type = Expense, category_color = COLORS ! 7\<rparr>]"

subsection \<open>Typed records as JavaScript values\<close>

fun json_of_EntryType :: "EntryType \<Rightarrow> json" where
  "json_of_EntryType Expense = JString ''expense''"
| "json_of_EntryType Income = JString ''income''"
| "json_of_EntryType Note = JString ''note''"

fun json_of_MediaType :: "MediaType \<Rightarrow> json" where
  "json_of_MediaType Image = JString ''image''"
| "json_of_MediaType Audio = JString ''audio''"
| "json_of_MediaType Drawing = JString ''drawing''"

definition json_of_MediaAttachment :: "MediaAttachment \<Rightarrow> json" where
  "json_of_MediaAttachment m =
     JObject [(''id'', JString (media_id m)), (''type'', json_of_MediaType (media_type m)),
              (''data'', JString (media_data m))]"

definition json_of_Entry :: "Entry \<Rightarrow> json" where
  "json_of_Entry e =
     JObject [(''id'', JString (entry_id e)), (''type'', json_of_EntryType (entry_type e)),
              (''amount'', JNumber (amount e)), (''category'', JString (category e)),
              (''tags'', JArray (map JString (tags e))), (''content'', JString (content e)),
              (''date'', JString (date e)),
              (''media'', JArray (map json_of_MediaAttachment (media e)))]"

definition json_of_Category :: "Category \<Rightarrow> json" where
  "json_of_Category c =
     JObject [(''id'', JString (category_id c)), (''name'', JString (category_name c)),
              (''type'', json_of_EntryType (category_type c)),
              (''color'', JString (category_color c))]"

subsection \<open>Entries\<close>

text \<open>
  \<^verbatim>\<open>
  const getEntries = () => {
    try {
      const data = localStorage.getItem(STORAGE_KEY);
      return data ? JSON.parse(data) : [];
    } catch (e) {
      console.error("Failed to load entries", e);
      return [];
    }
  };
  \<close>
  A missing key (\<^verbatim>\<open>null\<close>) and the empty string are both falsy: \<open>truthy_text\<close> gives the
  text that \<^verbatim>\<open>data ? ... : ...\<close> lets through.
\<close>

fun truthy_text :: "string option \<Rightarrow> string option" where
  "truthy_text None = None"
| "truthy_text (Some data) = (if data = [] then None else Some data)"

definition getEntries :: "JSON \<Rightarrow> World \<Rightarrow> json" where
  "getEntries J w =
     (case getItem (localStorage w) STORAGE_KEY of
        Inl err \<Rightarrow> JArray []
      | Inr data \<Rightarrow>
          (case truthy_text data of
             Some text \<Rightarrow> (case JSON_parse J text of None \<Rightarrow> JArray [] | Some v \<Rightarrow> v)
           | None \<Rightarrow> JArray []))"

text \<open>
  \<^verbatim>\<open>entries.findIndex((e: Entry) => e.id === id)\<close> on the elements of an array: the index
  of the first element whose \<^verbatim>\<open>id\<close> is the string \<open>i\<close>, or -1; reading \<^verbatim>\<open>e.id\<close> throws on
  a \<^verbatim>\<open>null\<close> element met before that.
\<close>

fun findIndex_id :: "string \<Rightarrow> json list \<Rightarrow> js_error + int" where
  "findIndex_id i [] = Inr (- 1)"
| "findIndex_id i (e # es) =
     (case get_property e ''id'' of
        Inl err \<Rightarrow> Inl err
      | Inr v \<Rightarrow>
          if v = Some (JString i) then Inr 0
          else (case findIndex_id i es of
                  Inl err \<Rightarrow> Inl err
                | Inr n \<Rightarrow> if n = - 1 then Inr (- 1) else Inr (n + 1)))"

text \<open>
  \<^verbatim>\<open>
  const saveEntry = (entry: Entry) => {
    try {
      const entries = getEntries();
      const existingIndex = entries.findIndex((e: Entry) => e.id === entry.id);
      let newEntries;
      if (existingIndex > -1) {
          entries[existingIndex] = entry;
          newEntries = entries;
      } else {
          newEntries = [entry, ...entries];
      }
      localStorage.setItem(STORAGE_KEY, JSON.stringify(newEntries));
      window.dispatchEvent(new Event('zenledger-update'));
    } catch (e) {
      alert("Failed to save entry. Storage might be full.");
    }
  };
  \<close>
  On a value that is not an array \<^verbatim>\<open>entries.findIndex\<close> is not a function: a TypeError,
  caught like the others.
\<close>

definition saveEntry :: "JSON \<Rightarrow> Entry \<Rightarrow> World \<Rightarrow> World" where
  "saveEntry J entry w =
     (case getEntries J w of
        JArray entries \<Rightarrow>
          (case findIndex_id (entry_id entry) entries of
             Inl err \<Rightarrow> alert ''Failed to save entry. Storage might be full.'' w
           | Inr existingIndex \<Rightarrow>
               let newEntries =
                     (if existingIndex > - 1
                      then entries[nat existingIndex := json_of_Entry entry]
                      else json_of_Entry entry # entries)
               in (case setItem STORAGE_KEY (JSON_stringify J 0 (JArray newEntries))
                          (localStorage w) of
                     Inl err \<Rightarrow> alert ''Failed to save entry. Storage might be full.'' w
                   | Inr s \<Rightarrow> dispatchEvent ''zenledger-update'' (w\<lparr>localStorage := s\<rparr>)))
      | _ \<Rightarrow> alert ''Failed to save entry. Storage might be full.'' w)"

text \<open>
  \<^verbatim>\<open>
  const deleteEntry = (id: string) => {
    if (!id) return;
    const entries = getEntries();
    const index = entries.findIndex((e: Entry) => e.id === id);
    if (index !== -1) {
      entries.splice(index, 1);
      localStorage.setItem(STORAGE_KEY, JSON.stringify(entries));
      window.dispatchEvent(new Event('zenledger-update'));
    }
  };
  \<close>
  Nothing is caught here: a TypeError of \<^verbatim>\<open>findIndex\<close> and an error of \<^verbatim>\<open>setItem\<close> reach
  the caller.
\<close>

definition splice1 :: "'a list \<Rightarrow> nat \<Rightarrow> 'a list" where
  "splice1 xs i = take i xs @ drop (Suc i) xs"

definition deleteEntry :: "JSON \<Rightarrow> string \<Rightarrow> World \<Rightarrow> unit completion \<times> World" where
  "deleteEntry J i w =
     (if i = [] then (Normal (), w)
      else
        (case getEntries J w of
           JArray entries \<Rightarrow>
             (case findIndex_id i entries of
                Inl err \<Rightarrow> (Throw err, w)
              | Inr index \<Rightarrow>
                  if index \<noteq> - 1 then
                    (case setItem STORAGE_KEY
                            (JSON_stringify J 0 (JArray (splice1 entries (nat index))))
                            (localStorage w) of
                       Inl err \<Rightarrow> (Throw err, w)
                     | Inr s \<Rightarrow>
                         (Normal (), dispatchEvent ''zenledger-update'' (w\<lparr>localStorage := s\<rparr>)))
                  else (Normal (), w))
         | _ \<Rightarrow> (Throw TypeError, w)))"

subsection \<open>Categories\<close>

text \<open>
  \<^verbatim>\<open>
  const getCategories = () => {
    try {
      const data = localStorage.getItem(CATEGORY_STORAGE_KEY);
      if (data) return JSON.parse(data);
      localStorage.setItem(CATEGORY_STORAGE_KEY, JSON.stringify(DEFAULT_EXPENSE_CATEGORIES));
      return DEFAULT_EXPENSE_CATEGORIES;
    } catch (e) {
      return DEFAULT_EXPENSE_CATEGORIES;
    }
  };
  \<close>
  The read may write: it returns its value and the world it leaves.
\<close>

definition DEFAULTS :: json where
  "DEFAULTS = JArray (map json_of_Category DEFAULT_EXPENSE_CATEGORIES)"

definition getCategories :: "JSON \<Rightarrow> World \<Rightarrow> json \<times> World" where
  "getCategories J w =
     (case getItem (localStorage w) CATEGORY_STORAGE_KEY of
        Inl err \<Rightarrow> (DEFAULTS, w)
      | Inr data \<Rightarrow>
          (case truthy_text data of
             Some text \<Rightarrow>
               (case JSON_parse J text of
                  None \<Rightarrow> (DEFAULTS, w)
                | Some v \<Rightarrow> (v, w))
           | None \<Rightarrow>
               (case setItem CATEGORY_STORAGE_KEY (JSON_stringify J 0 DEFAULTS)
                       (localStorage w) of
                  Inl err \<Rightarrow> (DEFAULTS, w)
                | Inr s \<Rightarrow> (DEFAULTS, w\<lparr>localStorage := s\<rparr>))))"

text \<open>
  \<^verbatim>\<open>
  const deleteCategory = (id: string) => {
    const categories = getCategories();
    if (categories.length <= 1) return;
    const newCategories = categories.filter((c: Category) => c.id !== id);
    localStorage.setItem(CATEGORY_STORAGE_KEY, JSON.stringify(newCategories));
    window.dispatchEvent(new Event('zenledger-categories-update'));
  };
  \<close>
  The function returns nothing and catches nothing. The model gives the world the call
  leaves, whether it returned or threw: a thrown error (of \<^verbatim>\<open>setItem\<close>, of \<^verbatim>\<open>c.id\<close> on a
  \<^verbatim>\<open>null\<close> element, or of \<^verbatim>\<open>length\<close> and \<^verbatim>\<open>filter\<close> on a value that is not an array) leaves
  the world as \<^verbatim>\<open>getCategories\<close> left it, and so does the early return.
\<close>

fun filter_id_neq :: "string \<Rightarrow> json list \<Rightarrow> js_error + json list" where
  "filter_id_neq i [] = Inr []"
| "filter_id_neq i (c # cs) =
     (case get_property c ''id'' of
        Inl err \<Rightarrow> Inl err
      | Inr v \<Rightarrow>
          (case filter_id_neq i cs of
             Inl err \<Rightarrow> Inl err
           | Inr cs' \<Rightarrow> if v \<noteq> Some (JString i) then Inr (c # cs') else Inr cs'))"

definition deleteCategory :: "JSON \<Rightarrow> string \<Rightarrow> World \<Rightarrow> World" where
  "deleteCategory J i w =
     (let (categories, w1) = getCategories J w in
      case categories of
        JArray cs \<Rightarrow>
          if length cs \<le> 1 then w1
          else
            (case filter_id_neq i cs of
               Inl err \<Rightarrow> w1
             | Inr newCategories \<Rightarrow>
                 (case setItem CATEGORY_STORAGE_KEY (JSON_stringify J 0 (JArray newCategories))
                         (localStorage w1) of
                    Inl err \<Rightarrow> w1
                  | Inr s \<Rightarrow>
                      dispatchEvent ''zenledger-categories-update'' (w1\<lparr>localStorage := s\<rparr>)))
      | _ \<Rightarrow> w1)"

subsection \<open>Backup\<close>

text \<open>
  \<^verbatim>\<open>
  const exportData = () => {
    const data = {
      entries: getEntries(),
      categories: getCategories(),
      exportedAt: new Date().toISOString(),
      appName: "ZenLedger",
      version: 1
    };
    return JSON.stringify(data, null, 2);
  };
  \<close>
  The clock's reading \<open>now\<close> is a parameter.
\<close>

definition exportData :: "JSON \<Rightarrow> string \<Rightarrow> World \<Rightarrow> string \<times> World" where
  "exportData J now w =
     (let entries = getEntries J w;
          (categories, w1) = getCategories J w
      in (JSON_stringify J 2
            (JObject [(''entries'', entries), (''categories'', categories),
                      (''exportedAt'', JString now), (''appName'', JString ''ZenLedger''),
                      (''version'', JNumber (Finite 1))]),
          w1))"

text \<open>
  \<^verbatim>\<open>
  const importData = (jsonString: string) => {
    try {
      const data = JSON.parse(jsonString);
      if (!data || !Array.isArray(data.entries) || !Array.isArray(data.categories)) {
        console.error("Invalid backup file format");
        return false;
      }
      localStorage.setItem(STORAGE_KEY, JSON.stringify(data.entries));
      localStorage.setItem(CATEGORY_STORAGE_KEY, JSON.stringify(data.categories));
      window.dispatchEvent(new Event('zenledger-update'));
      window.dispatchEvent(new Event('zenledger-categories-update'));
      return true;
    } catch (e) {
      return false;
    }
  };
  \<close>
  \<open>data\<close> is truthy where its properties are read, so the reads do not throw. An error of
  the second \<^verbatim>\<open>setItem\<close> is caught after the first has written.
\<close>

definition property_or_undefined :: "json \<Rightarrow> string \<Rightarrow> json option" where
  "property_or_undefined v k = (case get_property v k of Inl err \<Rightarrow> None | Inr p \<Rightarrow> p)"

definition importData :: "JSON \<Rightarrow> string \<Rightarrow> World \<Rightarrow> bool \<times> World" where
  "importData J jsonString w =
     (case JSON_parse J jsonString of
        None \<Rightarrow> (False, w)
      | Some data \<Rightarrow>
          if \<not> truthy data \<or> \<not> Array_isArray (property_or_undefined data ''entries'')
             \<or> \<not> Array_isArray (property_or_undefined data ''categories'')
          then (False, w)
          else
            (case (property_or_undefined data ''entries'',
                   property_or_undefined data ''categories'') of
               (Some entries, Some categories) \<Rightarrow>
                 (case setItem STORAGE_KEY (JSON_stringify J 0 entries) (localStorage w) of
                    Inl err \<Rightarrow> (False, w)
                  | Inr s1 \<Rightarrow>
                      (case setItem CATEGORY_STORAGE_KEY (JSON_stringify J 0 categories) s1 of
                         Inl err \<Rightarrow> (False, w\<lparr>localStorage := s1\<rparr>)
                       | Inr s2 \<Rightarrow>
                           (True,
                            dispatchEvent ''zenledger-categories-update''
                              (dispatchEvent ''zenledger-update'' (w\<lparr>localStorage := s2\<rparr>)))))
             | _ \<Rightarrow> (False, w)))"

text \<open>
  The last branch is never taken: \<^verbatim>\<open>Array.isArray\<close> has held of both properties.
\<close>

subsection \<open>A codec for running the store\<close>

text \<open>
  A pair of functions with the law \<open>JSON_faithful\<close>, to run the store on concrete worlds.
  It is a prefix code, not the syntax of JSON: a tag character, lengths and numbers in
  unary, a closing bracket after the members of an array or object. The indentation is
  ignored. An infinity or NaN is written as \<^verbatim>\<open>null\<close> is; the letters \<open>I\<close> and \<open>i\<close>, which
  the writer never produces, read as the two infinities, as a numeral beyond the range
  of the doubles does in JSON.
\<close>

fun enc_nat :: "nat \<Rightarrow> string" where
  "enc_nat 0 = ''0''"
| "enc_nat (Suc n) = CHR ''1'' # enc_nat n"

fun dec_nat :: "string \<Rightarrow> (nat \<times> string) option" where
  "dec_nat [] = None"
| "dec_nat (c # cs) =
     (if c = CHR ''0'' then Some (0, cs)
      else if c = CHR ''1'' then (case dec_nat cs of None \<Rightarrow> None | Some (n, r) \<Rightarrow> Some (Suc n, r))
      else None)"

definition enc_int :: "int \<Rightarrow> string" where
  "enc_int i = (if i < 0 then CHR ''-'' else CHR ''+'') # enc_nat (nat \<bar>i\<bar>)"

fun dec_int :: "string \<Rightarrow> (int \<times> string) option" where
  "dec_int [] = None"
| "dec_int (c # cs) =
     (if c = CHR ''-'' then (case dec_nat cs of None \<Rightarrow> None | Some (n, r) \<Rightarrow> Some (- int n, r))
      else if c = CHR ''+'' then (case dec_nat cs of None \<Rightarrow> None | Some (n, r) \<Rightarrow> Some (int n, r))
      else None)"

definition enc_rat :: "rat \<Rightarrow> string" where
  "enc_rat q = enc_int (fst (quotient_of q)) @ enc_int (snd (quotient_of q))"

definition dec_rat :: "string \<Rightarrow> (rat \<times> string) option" where
  "dec_rat s =
     (case dec_int s of
        None \<Rightarrow> None
      | Some (a, r) \<Rightarrow>
          (case dec_int r of None \<Rightarrow> None | Some (b, r') \<Rightarrow> Some (of_int a / of_int b, r')))"

definition enc_string :: "string \<Rightarrow> string" where
  "enc_string s = enc_nat (length s) @ s"

definition dec_string :: "string \<Rightarrow> (string \<times> string) option" where
  "dec_string s =
     (case dec_nat s of
        None \<Rightarrow> None
      | Some (n, r) \<Rightarrow> if n \<le> length r then Some (take n r, drop n r) else None)"

fun enc :: "json \<Rightarrow> string" where
  "enc JNull = ''n''"
| "enc (JBool b) = (if b then ''t'' else ''f'')"
| "enc (JNumber x) = (case x of Finite q \<Rightarrow> CHR ''#'' # enc_rat q | _ \<Rightarrow> ''n'')"
| "enc (JString s) = CHR ''s'' # enc_string s"
| "enc (JArray vs) = CHR ''['' # concat (map enc vs) @ '']''"
| "enc (JObject kvs) =
     CHR ''{'' # concat (map (\<lambda>(k, v). CHR '':'' # enc_string k @ enc v) kvs) @ ''}''"

text \<open>The reader recurses on its fuel; the length of the text is fuel enough.\<close>

fun dec :: "nat \<Rightarrow> string \<Rightarrow> (json \<times> string) option"
  and dec_array :: "nat \<Rightarrow> string \<Rightarrow> (json list \<times> string) option"
  and dec_object :: "nat \<Rightarrow> string \<Rightarrow> ((string \<times> json) list \<times> string) option" where
  "dec 0 s = None"
| "dec (Suc n) [] = None"
| "dec (Suc n) (c # cs) =
     (if c = CHR ''n'' then Some (JNull, cs)
      else if c = CHR ''t'' then Some (JBool True, cs)
      else if c = CHR ''f'' then Some (JBool False, cs)
      else if c = CHR ''#'' then
        (case dec_rat cs of None \<Rightarrow> None | Some (q, r) \<Rightarrow> Some (JNumber (Finite q), r))
      else if c = CHR ''I'' then Some (JNumber Infinity, cs)
      else if c = CHR ''i'' then Some (JNumber Neg_Infinity, cs)
      else if c = CHR ''s'' then
        (case dec_string cs of None \<Rightarrow> None | Some (s, r) \<Rightarrow> Some (JString s, r))
      else if c = CHR ''['' then
        (case dec_array n cs of None \<Rightarrow> None | Some (vs, r) \<Rightarrow> Some (JArray vs, r))
      else if c = CHR ''{'' then
        (case dec_object n cs of None \<Rightarrow> None | Some (kvs, r) \<Rightarrow> Some (JObject kvs, r))
      else None)"
| "dec_array 0 s = None"
| "dec_array (Suc n) [] = None"
| "dec_array (Suc n) (c # cs) =
     (if c = CHR '']'' then Some ([], cs)
      else
        (case dec n (c # cs) of
           None \<Rightarrow> None
         | Some (v, r) \<Rightarrow>
             (case dec_array n r of None \<Rightarrow> None | Some (vs, r') \<Rightarrow> Some (v # vs, r'))))"
| "dec_object 0 s = None"
| "dec_object (Suc n) [] = None"
| "dec_object (Suc n) (c # cs) =
     (if c = CHR ''}'' then Some ([], cs)
      else if c = CHR '':'' then
        (case dec_string cs of
           None \<Rightarrow> None
         | Some (k, r) \<Rightarrow>
             (case dec n r of
                None \<Rightarrow> None
              | Some (v, r') \<Rightarrow>
                  (case dec_object n r' of
                     None \<Rightarrow> None
                   | Some (kvs, r'') \<Rightarrow> Some ((k, v) # kvs, r''))))
      else None)"

definition prefix_parse :: "string \<Rightarrow> json option" where
  "prefix_parse s = (case dec (length s) s of Some (v, []) \<Rightarrow> Some v | _ \<Rightarrow> None)"

definition Prefix_JSON :: JSON where
  "Prefix_JSON = \<lparr>JSON_parse = prefix_parse, JSON_stringify = (\<lambda>indent. enc)\<rparr>"

section \<open>Example data\<close>

text \<open>
  The entries of the specification's aggregation example, and one more expense dated
  on the last day of April.
\<close>

definition example_entries :: "Entry list" where
  "example_entries =
     [\<lparr>entry_id = ''a'', entry_type = Expense, amount = Finite 30, category = ''food'', tags = [],
       content = [], date = ''2024-05-01'', media = []\<rparr>,
      \<lparr>entry_id = ''b'', entry_type = Expense, amount = Finite 20, category = ''food'', tags = [],
       content = [], date = ''2024-05-15'', media = []\<rparr>,
      \<lparr>entry_id = ''c'', entry_type = Expense, amount = Finite 10, category = ''transit'', tags = [],
       content = [], date = ''2024-05-20'', media = []\<rparr>,
      \<lparr>entry_id = ''d'', entry_type = Income, amount = Finite 500, category = ''salary'', tags = [],
       content = [], date = ''2024-05-01'', media = []\<rparr>,
      \<lparr>entry_id = ''e'', entry_type = Expense, amount = Finite 7, category = ''food'', tags = [],
       content = [], date = ''2024-04-30'', media = []\<rparr>]"





text \<open>
  Worlds to run the store on, their texts written by the codec above: one of first
  access with nothing stored, one holding the first two example entries and the first two
  built-in categories, and one whose two keys hold text that does not parse.
\<close>

definition fresh_world :: "nat \<Rightarrow> World" where
  "fresh_world q = \<lparr>localStorage = \<lparr>items = [], quota = q, available = True\<rparr>, effects = []\<rparr>"

definition stored_entries :: "json list" where
  "stored_entries = map json_of_Entry (take 2 example_entries)"

definition stored_categories :: "json list" where
  "stored_categories = map json_of_Category (take 2 DEFAULT_EXPENSE_CATEGORIES)"

definition stored_world :: World where
  "stored_world =
     \<lparr>localStorage =
        \<lparr>items = [(STORAGE_KEY, enc (JArray stored_entries)),
                  (CATEGORY_STORAGE_KEY, enc (JArray stored_categories))],
         quota = 5000, available = True\<rparr>,
      effects = []\<rparr>"

definition corrupt_world :: World where
  "corrupt_world =
     \<lparr>localStorage =
        \<lparr>items = [(STORAGE_KEY, ''{oops''), (CATEGORY_STORAGE_KEY, ''{oops'')],
         quota = 5000, available = True\<rparr>,
      effects = []\<rparr>"

subsection \<open>Words of the specification about the store\<close>

text \<open>An object whose \<^verbatim>\<open>entries\<close> and \<^verbatim>\<open>categories\<close> fields are both arrays.\<close>

definition backup_shaped :: "json \<Rightarrow> bool" where
  "backup_shaped data =
     (case data of
        JObject kvs \<Rightarrow>
          (case (Map_get kvs ''entries'', Map_get kvs ''categories'') of
             (Some (JArray es), Some (JArray cs)) \<Rightarrow> True
           | _ \<Rightarrow> False)
      | _ \<Rightarrow> False)"

text \<open>The value has the string \<open>i\<close> as its \<^verbatim>\<open>id\<close>.\<close>

definition has_id :: "string \<Rightarrow> json \<Rightarrow> bool" where
  "has_id i v = (get_property v ''id'' = Inr (Some (JString i)))"

text \<open>The number of elements of a collection; a value that is no array has none.\<close>

fun count_elements :: "json \<Rightarrow> nat" where
  "count_elements (JArray xs) = length xs"
| "count_elements _ = 0"

text \<open>
  A read of the key fails: the storage cannot be read, or the text under the key does
  not parse.
\<close>

definition unreadable_or_corrupt :: "JSON \<Rightarrow> World \<Rightarrow> string \<Rightarrow> bool" where
  "unreadable_or_corrupt J w k =
     (case getItem (localStorage w) k of
        Inl err \<Rightarrow> True
      | Inr None \<Rightarrow> False
      | Inr (Some text) \<Rightarrow> JSON_parse J text = None)"

text \<open>Two backup documents: one without categories, one with a single entry besides.\<close>

definition empty_backup :: json where
  "empty_backup = JObject [(''entries'', JArray []), (''categories'', JArray [])]"

definition one_entry_backup :: json where
  "one_entry_backup =
     JObject [(''entries'', JArray [JObject [(''id'', JString ''e1'')]]),
              (''categories'', JArray [])]"

text \<open>The storage of the world takes the write of the value \<open>v\<close> under the key \<open>k\<close>.\<close>

definition accepts :: "JSON \<Rightarrow> World \<Rightarrow> string \<Rightarrow> json \<Rightarrow> bool" where
  "accepts J w k v =
     (case setItem k (JSON_stringify J 0 v) (localStorage w) of
        Inl err \<Rightarrow> False
      | Inr s \<Rightarrow> True)"

text \<open>A world whose only stored entry has the empty string as its \<^verbatim>\<open>id\<close>.\<close>

definition empty_id_world :: World where
  "empty_id_world =
     \<lparr>localStorage =
        \<lparr>items = [(STORAGE_KEY, enc (JArray [JObject [(''id'', JString [])]]))],
         quota = 5000, available = True\<rparr>,
      effects = []\<rparr>"

text \<open>A sequence of \<open>deleteCategory\<close> calls, each on the world the one before has left.\<close>

definition deleteCategories :: "JSON \<Rightarrow> string list \<Rightarrow> World \<Rightarrow> World" where
  "deleteCategories J ids w = foldl (\<lambda>w' i. deleteCategory J i w') w ids"




text \<open>
  Worlds whose entries key holds what \<open>saveEntry\<close> never writes. An import can leave an
  array that begins with \<^verbatim>\<open>null\<close>, or two entries with one id. Another program can leave an
  object instead of an array, or an entry whose amount is a numeral beyond the range of
  the doubles, which reads as \<^verbatim>\<open>Infinity\<close>. The last world holds the stored entries in a
  storage that takes no write, its quota used up.
\<close>

definition entries_world :: "string \<Rightarrow> nat \<Rightarrow> World" where
  "entries_world stored q =
     \<lparr>localStorage =
        \<lparr>items = [(STORAGE_KEY, stored),
                  (CATEGORY_STORAGE_KEY, enc (JArray stored_categories))],
         quota = q, available = True\<rparr>,
      effects = []\<rparr>"

definition object_world :: World where
  "object_world = entries_world (enc (JObject [])) 5000"

definition null_entries :: "json list" where
  "null_entries = [JNull, JObject [(''id'', JString ''b'')]]"

definition null_world :: World where
  "null_world = entries_world (enc (JArray null_entries)) 5000"

definition overflow_text :: string where
  "overflow_text =
     ''[{'' @ '':'' @ enc_string ''id'' @ enc (JString ''e1'') @
     '':'' @ enc_string ''amount'' @ ''I'' @ ''}'' @
     enc (JObject [(''id'', JString ''e2'')]) @ '']''"

definition overflow_entries :: "json \<Rightarrow> json list" where
  "overflow_entries a =
     [JObject [(''id'', JString ''e1''), (''amount'', a)], JObject [(''id'', JString ''e2'')]]"

definition overflow_world :: World where
  "overflow_world = entries_world overflow_text 5000"

definition twin_entries :: "json list" where
  "twin_entries =
     [JObject [(''id'', JString ''b''), (''content'', JString ''first'')],
      JObject [(''id'', JString ''b''), (''content'', JString ''second'')]]"

definition twin_world :: World where
  "twin_world = entries_world (enc (JArray twin_entries)) 5000"

definition full_world :: World where
  "full_world = entries_world (enc (JArray stored_entries)) 0"

text \<open>No \<^verbatim>\<open>null\<close> element stands before the first element that has the id.\<close>

definition readable_to :: "string \<Rightarrow> json list \<Rightarrow> bool" where
  "readable_to i es \<longleftrightarrow> JNull \<notin> set (takeWhile (\<lambda>x. \<not> has_id i x) es)"

section \<open>Properties of the numbers\<close>












section \<open>Properties of the statistics aggregation\<close>

subsection \<open>Grouping\<close>

















lemma sortable_insort_key: "sortable (x # ys) \<Longrightarrow> sortable (insort_key f x ys)"
  by (simp add: sortable_def set_insort_key)
















lemma dataByCategory_example:
  "dataByCategory (filteredEntries parseISO_calendar example_entries (Local_Date 2024 4 1) Expense) =
     [\<lparr>group_name = ''food'', group_value = Finite 50, group_color = ''#6366f1''\<rparr>,
      \<lparr>group_name = ''transit'', group_value = Finite 10, group_color = ''#ec4899''\<rparr>]"
  by code_simp



subsection \<open>Filtering\<close>

lemma isSameMonth_iff:
  "isSameMonth a b \<longleftrightarrow>
     (\<exists>y m d1 d2. a = Local_Date y m d1 \<and> b = Local_Date y m d2)"
  by (cases a; cases b) auto

lemma parseISO_calendar_april_30: "parseISO_calendar ''2024-04-30'' = Local_Date 2024 3 30"
  by (simp add: parseISO_calendar_def digit_val_def days_in_month_def)

text \<open>
  Claim C2. An entry is in the filtered list if and only if it is one of the entries, its
  parsed date and the target month are valid dates with the same local-calendar year and
  month, and its type is the selector. In particular an entry dated 2024-04-30 is not in
  the filtered list for May 2024 (month index 4), whatever the day of the target date.
\<close>

theorem filteredEntries_month_and_type:
  "(e \<in> set (filteredEntries parseISO entries currentMonth activeTab) \<longleftrightarrow>
      e \<in> set entries \<and>
      (\<exists>y m d1 d2. parseISO (date e) = Local_Date y m d1 \<and> currentMonth = Local_Date y m d2) \<and>
      entry_type e = activeTab) \<and>
   (date e = ''2024-04-30'' \<longrightarrow>
      e \<notin> set (filteredEntries parseISO_calendar entries (Local_Date 2024 4 d) activeTab))"
  by (auto simp: filteredEntries_def isSameMonth_iff parseISO_calendar_april_30)

theorem filteredEntries_month_and_type_witness:
  "date (example_entries ! 4) = ''2024-04-30'' \<and> example_entries ! 4 \<in> set example_entries \<and>
   entry_type (example_entries ! 4) = Expense \<and>
   example_entries ! 4 \<notin>
     set (filteredEntries parseISO_calendar example_entries (Local_Date 2024 4 1) Expense) \<and>
   example_entries ! 0 \<in>
     set (filteredEntries parseISO_calendar example_entries (Local_Date 2024 4 1) Expense)"
  using filteredEntries_month_and_type
      [of "example_entries ! 4" parseISO_calendar example_entries "Local_Date 2024 4 1" Expense 1]
    filteredEntries_month_and_type
      [of "example_entries ! 0" parseISO_calendar example_entries "Local_Date 2024 4 1" Expense 1]
  by (simp add: example_entries_def parseISO_calendar_def digit_val_def days_in_month_def)

section \<open>The codec satisfies the law\<close>

lemma dec_nat_enc_nat: "dec_nat (enc_nat n @ r) = Some (n, r)"
  by (induction n) auto

lemma dec_int_enc_int: "dec_int (enc_int i @ r) = Some (i, r)"
  by (simp add: enc_int_def dec_nat_enc_nat)

lemma dec_rat_enc_rat: "dec_rat (enc_rat q @ r) = Some (q, r)"
proof -
  obtain a b where ab: "quotient_of q = (a, b)" by (cases "quotient_of q")
  then have "q = of_int a / of_int b" by (rule quotient_of_div)
  with ab show ?thesis
    by (simp add: dec_rat_def enc_rat_def dec_int_enc_int)
qed

lemma dec_string_enc_string: "dec_string (enc_string s @ r) = Some (s, r)"
  by (simp add: dec_string_def enc_string_def dec_nat_enc_nat)

lemma enc_head: "\<exists>c cs. enc v = c # cs \<and> c \<noteq> CHR '']''"
  by (cases v) (auto split: number.splits)

lemma dec_array_members:
  assumes "\<And>x n r. x \<in> set vs \<Longrightarrow> length (enc x) \<le> n \<Longrightarrow>
             dec n (enc x @ r) = Some (as_written x, r)"
    and "length (concat (map enc vs)) < n"
  shows "dec_array n (concat (map enc vs) @ CHR '']'' # r) = Some (map as_written vs, r)"
  using assms
proof (induction vs arbitrary: n)
  case Nil
  then show ?case by (cases n) auto
next
  case (Cons v vs)
  obtain c cs where c: "enc v = c # cs" "c \<noteq> CHR '']''"
    using enc_head by blast
  obtain m where n: "n = Suc m" using Cons.prems(2) by (cases n) auto
  have 1: "dec m (enc v @ concat (map enc vs) @ CHR '']'' # r) =
      Some (as_written v, concat (map enc vs) @ CHR '']'' # r)"
    using Cons.prems n by (intro Cons.prems(1)) auto
  have 2: "dec_array m (concat (map enc vs) @ CHR '']'' # r) = Some (map as_written vs, r)"
    using Cons.prems n c by (intro Cons.IH) auto
  show ?case
    using 1 2 c n by simp
qed

lemma dec_object_members:
  assumes "\<And>k x n r. (k, x) \<in> set kvs \<Longrightarrow> length (enc x) \<le> n \<Longrightarrow>
             dec n (enc x @ r) = Some (as_written x, r)"
    and "length (concat (map (\<lambda>(k, v). CHR '':'' # enc_string k @ enc v) kvs)) < n"
  shows "dec_object n (concat (map (\<lambda>(k, v). CHR '':'' # enc_string k @ enc v) kvs) @ CHR ''}'' # r)
     = Some (map (\<lambda>(k, v). (k, as_written v)) kvs, r)"
  using assms
proof (induction kvs arbitrary: n)
  case Nil
  then show ?case by (cases n) auto
next
  case (Cons kv kvs)
  obtain k v where kv: "kv = (k, v)" by (cases kv)
  let ?rest = "concat (map (\<lambda>(k, v). CHR '':'' # enc_string k @ enc v) kvs) @ CHR ''}'' # r"
  obtain m where n: "n = Suc m" using Cons.prems(2) by (cases n) auto
  have 1: "dec m (enc v @ ?rest) = Some (as_written v, ?rest)"
    using Cons.prems n kv by (intro Cons.prems(1)[of k]) auto
  have 2: "dec_object m ?rest = Some (map (\<lambda>(k, v). (k, as_written v)) kvs, r)"
    using Cons.prems n kv by (intro Cons.IH) auto
  show ?case
    using 1 2 n kv by (simp add: dec_string_enc_string)
qed

lemma dec_enc: "length (enc v) \<le> n \<Longrightarrow> dec n (enc v @ r) = Some (as_written v, r)"
proof (induction v arbitrary: n r)
  case JNull
  then show ?case by (cases n) auto
next
  case (JBool b)
  then show ?case by (cases n; cases b) auto
next
  case (JNumber x)
  then show ?case by (cases n; cases x) (auto simp: dec_rat_enc_rat)
next
  case (JString s)
  then show ?case by (cases n) (auto simp: dec_string_enc_string)
next
  case (JArray vs)
  obtain m where n: "n = Suc m" using JArray.prems by (cases n) auto
  have "dec_array m (concat (map enc vs) @ CHR '']'' # r) = Some (map as_written vs, r)"
    using JArray.prems n by (intro dec_array_members JArray.IH) auto
  then show ?case using n by simp
next
  case (JObject kvs)
  obtain m where n: "n = Suc m" using JObject.prems by (cases n) auto
  have "dec_object m (concat (map (\<lambda>(k, v). CHR '':'' # enc_string k @ enc v) kvs) @ CHR ''}'' # r)
      = Some (map (\<lambda>(k, v). (k, as_written v)) kvs, r)"
  proof (rule dec_object_members)
    fix k x n' r'
    assume "(k, x) \<in> set kvs" "length (enc x) \<le> n'"
    then show "dec n' (enc x @ r') = Some (as_written x, r')"
      using JObject.IH[of "(k, x)" x n' r'] by simp
  next
    show "length (concat (map (\<lambda>(k, v). CHR '':'' # enc_string k @ enc v) kvs)) < m"
      using JObject.prems n by simp
  qed
  then show ?case using n by simp
qed

lemma prefix_parse_enc: "prefix_parse (enc v) = Some (as_written v)"
  using dec_enc[of v "length (enc v)" "[]"] by (simp add: prefix_parse_def)

lemma enc_nonempty: "enc v \<noteq> []"
  by (cases v) (auto split: number.splits)

lemma Prefix_JSON_faithful: "JSON_faithful Prefix_JSON"
  by (simp add: JSON_faithful_def Prefix_JSON_def prefix_parse_enc enc_nonempty)

text \<open>Writing twice loses nothing more; the values without numbers are not changed.\<close>

lemma as_written_idem: "as_written (as_written v) = as_written v"
  by (induction v) (auto split: number.splits)

lemma as_written_strings: "as_written (JArray (map JString xs)) = JArray (map JString xs)"
  by (induction xs) auto

section \<open>Properties of the ledger store\<close>

subsection \<open>Storage\<close>

lemma keys_differ: "STORAGE_KEY \<noteq> CATEGORY_STORAGE_KEY"
  by (simp add: STORAGE_KEY_def CATEGORY_STORAGE_KEY_def)

lemma Map_get_Map_set: "Map_get (Map_set k v m) k' = (if k' = k then Some v else Map_get m k')"
  by (induction m) auto

lemma setItem_Inr:
  "setItem k v s = Inr s' \<Longrightarrow>
     available s \<and> s' = s\<lparr>items := Map_set k v (items s)\<rparr>"
  by (auto simp: setItem_def split: if_splits)

lemma getItem_setItem:
  "setItem k v s = Inr s' \<Longrightarrow>
     getItem s' k' = Inr (if k' = k then Some v else Map_get (items s) k')"
  by (auto simp: getItem_def Map_get_Map_set dest!: setItem_Inr)

subsection \<open>Import rejects what is not a backup\<close>

text \<open>The three tests of \<open>importData\<close> hold together exactly of a backup-shaped value.\<close>

lemma importData_accepts_iff:
  "(truthy data \<and> Array_isArray (property_or_undefined data ''entries'') \<and>
    Array_isArray (property_or_undefined data ''categories'')) = backup_shaped data"
  by (cases data)
     (auto simp: backup_shaped_def property_or_undefined_def
           elim!: Array_isArray.elims split: option.splits json.splits)

lemma importData_guard:
  "(\<not> truthy data \<or> \<not> Array_isArray (property_or_undefined data ''entries'') \<or>
    \<not> Array_isArray (property_or_undefined data ''categories'')) = (\<not> backup_shaped data)"
  using importData_accepts_iff [of data] by blast

lemma importData_not_backup:
  assumes "JSON_parse J jsonString = Some data" and "\<not> backup_shaped data"
  shows "importData J jsonString w = (False, w)"
proof -
  have "\<not> truthy data \<or> \<not> Array_isArray (property_or_undefined data ''entries'') \<or>
      \<not> Array_isArray (property_or_undefined data ''categories'')"
    using assms(2) importData_guard [of data] by blast
  with assms(1) show ?thesis
    by (auto simp: importData_def)
qed

text \<open>
  Claim C4. When the input text does not parse, or parses to a value that is not an
  object whose \<^verbatim>\<open>entries\<close> and \<^verbatim>\<open>categories\<close> fields are both arrays, \<open>importData\<close>
  returns false and the world, hence both stored collections, is exactly as before.
\<close>

theorem importData_rejects_malformed:
  assumes "JSON_parse J jsonString = None \<or>
           (\<exists>data. JSON_parse J jsonString = Some data \<and> \<not> backup_shaped data)"
  shows "importData J jsonString w = (False, w)"
proof (cases "JSON_parse J jsonString")
  case None
  then show ?thesis by (simp add: importData_def)
next
  case (Some data)
  with assms have "\<not> backup_shaped data" by simp
  with Some show ?thesis by (rule importData_not_backup)
qed

theorem importData_rejects_malformed_witness:
  "JSON_parse Prefix_JSON ''{:1110foo#+10+10}'' = Some (JObject [(''foo'', JNumber (Finite 1))]) \<and>
   \<not> backup_shaped (JObject [(''foo'', JNumber (Finite 1))]) \<and>
   importData Prefix_JSON ''{:1110foo#+10+10}'' stored_world = (False, stored_world) \<and>
   JSON_parse Prefix_JSON ''{oops'' = None \<and>
   importData Prefix_JSON ''{oops'' stored_world = (False, stored_world)"
proof -
  have 1: "JSON_parse Prefix_JSON ''{:1110foo#+10+10}'' = Some (JObject [(''foo'', JNumber (Finite 1))])"
    by (simp add: Prefix_JSON_def prefix_parse_def dec_string_def dec_rat_def)
  have 2: "\<not> backup_shaped (JObject [(''foo'', JNumber (Finite 1))])"
    by (simp add: backup_shaped_def)
  have 3: "JSON_parse Prefix_JSON ''{oops'' = None"
    by (simp add: Prefix_JSON_def prefix_parse_def dec_string_def)
  show ?thesis
    using 1 2 3
      importData_rejects_malformed [of Prefix_JSON "''{:1110foo#+10+10}''" stored_world]
      importData_rejects_malformed [of Prefix_JSON "''{oops''" stored_world]
    by simp
qed

subsection \<open>Reads that fail\<close>

lemma count_elements_DEFAULTS: "count_elements DEFAULTS = 8"
  by (simp add: DEFAULTS_def DEFAULT_EXPENSE_CATEGORIES_def)

text \<open>
  Claim C9, as the code has it. When the storage cannot be read or the text under the
  key does not parse, \<open>getEntries\<close> returns the empty array, and \<open>getCategories\<close> returns
  the 8 built-in categories. Both are values, not errors: neither function has a
  throwing outcome.
\<close>

theorem read_failure_empty_or_defaults:
  "(unreadable_or_corrupt J w STORAGE_KEY \<longrightarrow> getEntries J w = JArray []) \<and>
   (unreadable_or_corrupt J w CATEGORY_STORAGE_KEY \<longrightarrow>
      fst (getCategories J w) = DEFAULTS \<and> count_elements (fst (getCategories J w)) = 8)"
  by (auto simp: unreadable_or_corrupt_def getEntries_def getCategories_def count_elements_DEFAULTS
      split: sum.splits option.splits if_splits elim!: truthy_text.elims)

lemma prefix_parse_oops: "JSON_parse Prefix_JSON ''{oops'' = None"
  by (simp add: Prefix_JSON_def prefix_parse_def dec_string_def)

theorem read_failure_empty_or_defaults_witness:
  "unreadable_or_corrupt Prefix_JSON corrupt_world STORAGE_KEY \<and>
   getEntries Prefix_JSON corrupt_world = JArray [] \<and>
   unreadable_or_corrupt Prefix_JSON corrupt_world CATEGORY_STORAGE_KEY \<and>
   fst (getCategories Prefix_JSON corrupt_world) = DEFAULTS \<and>
   count_elements (fst (getCategories Prefix_JSON corrupt_world)) = 8"
proof -
  have 1: "unreadable_or_corrupt Prefix_JSON corrupt_world STORAGE_KEY"
    by (simp add: unreadable_or_corrupt_def corrupt_world_def getItem_def prefix_parse_oops
        STORAGE_KEY_def CATEGORY_STORAGE_KEY_def)
  have 2: "unreadable_or_corrupt Prefix_JSON corrupt_world CATEGORY_STORAGE_KEY"
    by (simp add: unreadable_or_corrupt_def corrupt_world_def getItem_def prefix_parse_oops
        STORAGE_KEY_def CATEGORY_STORAGE_KEY_def)
  show ?thesis
    using 1 2 read_failure_empty_or_defaults [of Prefix_JSON corrupt_world]
    by (simp add: count_elements_DEFAULTS)
qed

text \<open>
  The claim as stated asks \<open>getCategories\<close> for the empty array on such a read; on the
  world whose keys hold unparsable text it returns the built-in categories.
\<close>

theorem getCategories_corrupt_counterexample:
  "unreadable_or_corrupt Prefix_JSON corrupt_world CATEGORY_STORAGE_KEY \<and>
   fst (getCategories Prefix_JSON corrupt_world) \<noteq> JArray []"
  by (simp add: unreadable_or_corrupt_def corrupt_world_def getItem_def prefix_parse_oops
      getCategories_def STORAGE_KEY_def CATEGORY_STORAGE_KEY_def DEFAULTS_def
      DEFAULT_EXPENSE_CATEGORIES_def)

subsection \<open>Import of a backup without categories\<close>

text \<open>
  Claim C10. A backup whose \<^verbatim>\<open>categories\<close> field is the empty array is backup-shaped;
  where the storage takes both writes (of the entries as they read back from the text,
  and of the empty array), \<open>importData\<close> returns true on its text, and
  \<open>getCategories\<close> then returns the empty array and leaves the world as it is: the import
  does not keep the floor of one category.
\<close>

theorem import_empty_categories:
  assumes "JSON_faithful J"
    and "setItem STORAGE_KEY (JSON_stringify J 0 (as_written (JArray es))) (localStorage w) = Inr s1"
    and "setItem CATEGORY_STORAGE_KEY (JSON_stringify J 0 (JArray [])) s1 = Inr s2"
  shows "backup_shaped (JObject [(''entries'', JArray es), (''categories'', JArray [])]) \<and>
         (\<exists>w'. importData J
                  (JSON_stringify J n (JObject [(''entries'', JArray es), (''categories'', JArray [])]))
                  w = (True, w') \<and>
               getCategories J w' = (JArray [], w'))"
proof -
  let ?w' = "dispatchEvent ''zenledger-categories-update''
               (dispatchEvent ''zenledger-update'' (w\<lparr>localStorage := s2\<rparr>))"
  have p: "\<And>n v. JSON_parse J (JSON_stringify J n v) = Some (as_written v)"
    and ne: "\<And>n v. JSON_stringify J n v \<noteq> []"
    using assms(1) by (simp_all add: JSON_faithful_def)
  have imp: "importData J
      (JSON_stringify J n (JObject [(''entries'', JArray es), (''categories'', JArray [])])) w
      = (True, ?w')"
    using assms(2,3) by (simp add: importData_def p property_or_undefined_def)
  have "getItem s2 CATEGORY_STORAGE_KEY = Inr (Some (JSON_stringify J 0 (JArray [])))"
    using getItem_setItem [OF assms(3), of CATEGORY_STORAGE_KEY] by simp
  then have "getCategories J ?w' = (JArray [], ?w')"
    by (simp add: getCategories_def dispatchEvent_def p ne)
  with imp show ?thesis
    by (simp add: backup_shaped_def)
qed

theorem import_empty_categories_witness:
  "JSON_faithful Prefix_JSON \<and>
   (\<exists>w'. importData Prefix_JSON (JSON_stringify Prefix_JSON 2 empty_backup) (fresh_world 100)
            = (True, w') \<and>
          getCategories Prefix_JSON w' = (JArray [], w'))"
proof -
  let ?s1 = "\<lparr>items = [(STORAGE_KEY, ''[]'')], quota = 100, available = True\<rparr>"
  let ?s2 = "\<lparr>items = [(STORAGE_KEY, ''[]''), (CATEGORY_STORAGE_KEY, ''[]'')], quota = 100,
             available = True\<rparr>"
  have 1: "setItem STORAGE_KEY (JSON_stringify Prefix_JSON 0 (as_written (JArray [])))
             (localStorage (fresh_world 100)) = Inr ?s1"
    by (simp add: setItem_def fresh_world_def Prefix_JSON_def usage_def STORAGE_KEY_def)
  have 2: "setItem CATEGORY_STORAGE_KEY (JSON_stringify Prefix_JSON 0 (JArray [])) ?s1 = Inr ?s2"
    by (simp add: setItem_def Prefix_JSON_def usage_def STORAGE_KEY_def CATEGORY_STORAGE_KEY_def)
  show ?thesis
    using import_empty_categories [of Prefix_JSON "[]", OF Prefix_JSON_faithful 1 2, of 2]
      Prefix_JSON_faithful
    by (simp add: empty_backup_def)
qed

subsection \<open>Import that fails after its first write\<close>

text \<open>
  Claim C5, as the code has it. After an import that returns false the text under the
  categories key is what it was. The world is unchanged altogether, or else the input was
  a backup whose entries were written and whose categories the storage then refused:
  the entries key holds the imported entries, and nothing is rolled back.
\<close>

theorem importData_failure_keeps_categories:
  assumes "importData J jsonString w = (False, w')"
  shows "getItem (localStorage w') CATEGORY_STORAGE_KEY =
           getItem (localStorage w) CATEGORY_STORAGE_KEY \<and>
         (w' = w \<or>
          (\<exists>data entries categories s1 err.
              JSON_parse J jsonString = Some data \<and> backup_shaped data \<and>
              property_or_undefined data ''entries'' = Some entries \<and>
              property_or_undefined data ''categories'' = Some categories \<and>
              setItem STORAGE_KEY (JSON_stringify J 0 entries) (localStorage w) = Inr s1 \<and>
              setItem CATEGORY_STORAGE_KEY (JSON_stringify J 0 categories) s1 = Inl err \<and>
              w' = w\<lparr>localStorage := s1\<rparr> \<and>
              getItem s1 STORAGE_KEY = Inr (Some (JSON_stringify J 0 entries))))"
proof (cases "JSON_parse J jsonString")
  case None
  with assms show ?thesis by (simp add: importData_def)
next
  case (Some data)
  show ?thesis
  proof (cases "backup_shaped data")
    case False
    with Some have "importData J jsonString w = (False, w)"
      by (rule importData_not_backup)
    with assms show ?thesis by simp
  next
    case True
    then obtain entries categories where
      pe: "property_or_undefined data ''entries'' = Some entries" and
      pc: "property_or_undefined data ''categories'' = Some categories"
      using importData_accepts_iff [of data]
      by (auto elim!: Array_isArray.elims)
    have g: "truthy data" "Array_isArray (property_or_undefined data ''entries'')"
      "Array_isArray (property_or_undefined data ''categories'')"
      using True importData_accepts_iff [of data] by simp_all
    show ?thesis
    proof (cases "setItem STORAGE_KEY (JSON_stringify J 0 entries) (localStorage w)")
      case (Inl err)
      with assms Some g pe pc show ?thesis
        by (simp add: importData_def)
    next
      case (Inr s1)
      note first = this
      show ?thesis
      proof (cases "setItem CATEGORY_STORAGE_KEY (JSON_stringify J 0 categories) s1")
        case (Inl err)
        have w': "w' = w\<lparr>localStorage := s1\<rparr>"
          using assms Some g pe pc first Inl by (simp add: importData_def)
        have "getItem s1 CATEGORY_STORAGE_KEY = getItem (localStorage w) CATEGORY_STORAGE_KEY"
          using getItem_setItem [OF first, of CATEGORY_STORAGE_KEY] setItem_Inr [OF first]
            keys_differ
          by (auto simp: getItem_def)
        moreover have "getItem s1 STORAGE_KEY = Inr (Some (JSON_stringify J 0 entries))"
          using getItem_setItem [OF first, of STORAGE_KEY] by simp
        ultimately show ?thesis
          using w' Some True pe pc first Inl by auto
      next
        case (Inr s2)
        with assms Some g pe pc first show ?thesis
          by (simp add: importData_def)
      qed
    qed
  qed
qed

text \<open>
  The claim as stated allows no failed import with one collection replaced and the other
  not. With a quota of 40 characters the entries of the one-entry backup fit and its
  categories do not: the import returns false, the entries read back are the imported
  ones, and the categories key is as absent as before.
\<close>

lemma enc_one_entry: "enc (JArray [JObject [(''id'', JString ''e1'')]]) = ''[{:110ids110e1}]''"
  by (simp add: enc_string_def)

theorem importData_partial_counterexample:
  "fst (importData Prefix_JSON (enc one_entry_backup) (fresh_world 40)) = False \<and>
   getEntries Prefix_JSON (fresh_world 40) = JArray [] \<and>
   getEntries Prefix_JSON (snd (importData Prefix_JSON (enc one_entry_backup) (fresh_world 40)))
     = JArray [JObject [(''id'', JString ''e1'')]] \<and>
   getItem (localStorage (fresh_world 40)) CATEGORY_STORAGE_KEY = Inr None \<and>
   getItem (localStorage (snd (importData Prefix_JSON (enc one_entry_backup) (fresh_world 40))))
     CATEGORY_STORAGE_KEY = Inr None"
proof -
  have p: "JSON_parse Prefix_JSON (enc one_entry_backup) = Some one_entry_backup"
    using prefix_parse_enc [of one_entry_backup]
    by (simp add: Prefix_JSON_def one_entry_backup_def del: enc.simps)
  have q: "prefix_parse ''[{:110ids110e1}]'' = Some (JArray [JObject [(''id'', JString ''e1'')]])"
    by code_simp
  have i: "importData Prefix_JSON (enc one_entry_backup) (fresh_world 40) =
      (False, (fresh_world 40)\<lparr>localStorage :=
          \<lparr>items = [(STORAGE_KEY, ''[{:110ids110e1}]'')], quota = 40, available = True\<rparr>\<rparr>)"
    unfolding importData_def p
    by (simp add: one_entry_backup_def property_or_undefined_def setItem_def fresh_world_def
        Prefix_JSON_def usage_def STORAGE_KEY_def CATEGORY_STORAGE_KEY_def enc_string_def)
  show ?thesis
    unfolding i
    by (simp add: getEntries_def getItem_def fresh_world_def Prefix_JSON_def q
        STORAGE_KEY_def CATEGORY_STORAGE_KEY_def)
qed

theorem importData_failure_keeps_categories_witness:
  "importData Prefix_JSON (enc one_entry_backup) (fresh_world 40) =
     (False, (fresh_world 40)\<lparr>localStorage :=
          \<lparr>items = [(STORAGE_KEY, ''[{:110ids110e1}]'')], quota = 40, available = True\<rparr>\<rparr>) \<and>
   getItem \<lparr>items = [(STORAGE_KEY, ''[{:110ids110e1}]'')], quota = 40, available = True\<rparr>
     CATEGORY_STORAGE_KEY = getItem (localStorage (fresh_world 40)) CATEGORY_STORAGE_KEY"
proof -
  have p: "JSON_parse Prefix_JSON (enc one_entry_backup) = Some one_entry_backup"
    using prefix_parse_enc [of one_entry_backup]
    by (simp add: Prefix_JSON_def one_entry_backup_def del: enc.simps)
  have i: "importData Prefix_JSON (enc one_entry_backup) (fresh_world 40) =
      (False, (fresh_world 40)\<lparr>localStorage :=
          \<lparr>items = [(STORAGE_KEY, ''[{:110ids110e1}]'')], quota = 40, available = True\<rparr>\<rparr>)"
    unfolding importData_def p
    by (simp add: one_entry_backup_def property_or_undefined_def setItem_def fresh_world_def
        Prefix_JSON_def usage_def STORAGE_KEY_def CATEGORY_STORAGE_KEY_def enc_string_def)
  show ?thesis
    using importData_failure_keeps_categories [OF i] i
    by simp
qed

subsection \<open>Saving an entry\<close>

text \<open>
  \<open>findIndex_id\<close> on an array in which no \<^verbatim>\<open>null\<close> stands before the first element that has
  the id: -1 when no element has the id, and otherwise the index of the first element
  that has it.
\<close>

lemma get_property_total: "v \<noteq> JNull \<Longrightarrow> \<exists>p. get_property v k = Inr p"
  by (cases v) auto

lemma readable_to_Cons:
  "\<not> has_id i e \<Longrightarrow> readable_to i (e # es) \<longleftrightarrow> e \<noteq> JNull \<and> readable_to i es"
  by (auto simp: readable_to_def)

lemma findIndex_id_absent:
  "readable_to i es \<Longrightarrow> \<not> (\<exists>x\<in>set es. has_id i x) \<Longrightarrow> findIndex_id i es = Inr (- 1)"
proof (induction es)
  case Nil
  then show ?case by simp
next
  case (Cons e es)
  then have e: "e \<noteq> JNull" and r: "readable_to i es"
    by (simp_all add: readable_to_Cons)
  obtain p where "get_property e ''id'' = Inr p"
    using get_property_total [OF e] by auto
  with Cons r show ?case by (auto simp: has_id_def)
qed

lemma findIndex_id_present:
  "readable_to i es \<Longrightarrow> \<exists>x\<in>set es. has_id i x \<Longrightarrow>
     \<exists>n < length es. findIndex_id i es = Inr (int n) \<and> has_id i (es ! n) \<and>
        (\<forall>m < n. \<not> has_id i (es ! m))"
proof (induction es)
  case Nil
  then show ?case by simp
next
  case (Cons e es)
  show ?case
  proof (cases "has_id i e")
    case True
    then show ?thesis by (auto simp: has_id_def intro!: exI [of _ 0])
  next
    case False
    with Cons.prems have e: "e \<noteq> JNull" and r: "readable_to i es"
      and x: "\<exists>x\<in>set es. has_id i x"
      by (simp_all add: readable_to_Cons)
    obtain p where p: "get_property e ''id'' = Inr p"
      using get_property_total [OF e] by auto
    obtain n where n: "n < length es" "findIndex_id i es = Inr (int n)"
      "has_id i (es ! n)" "\<forall>m < n. \<not> has_id i (es ! m)"
      using Cons.IH [OF r x] by auto
    have "\<forall>m < Suc n. \<not> has_id i ((e # es) ! m)"
      using False n(4) by (auto simp: nth_Cons split: nat.splits)
    moreover have "findIndex_id i (e # es) = Inr (int (Suc n))"
      using False p n(2) by (auto simp: has_id_def)
    ultimately show ?thesis
      using n(1,3) by (intro exI [of _ "Suc n"]) auto
  qed
qed

lemma getEntries_after_write:
  assumes "JSON_faithful J"
    and "setItem STORAGE_KEY (JSON_stringify J 0 v) (localStorage w) = Inr s"
  shows "getEntries J (w\<lparr>localStorage := s, effects := fx\<rparr>) = as_written v"
proof -
  have "getItem s STORAGE_KEY = Inr (Some (JSON_stringify J 0 v))"
    using getItem_setItem [OF assms(2), of STORAGE_KEY] by simp
  then show ?thesis
    using assms(1) by (simp add: getEntries_def JSON_faithful_def)
qed

lemma accepts_Inr: "accepts J w k v \<Longrightarrow> \<exists>s. setItem k (JSON_stringify J 0 v) (localStorage w) = Inr s"
  by (auto simp: accepts_def split: sum.splits)

lemma saveEntry_new:
  assumes "JSON_faithful J" "getEntries J w = JArray es" "readable_to (entry_id e) es"
    and "\<not> (\<exists>x\<in>set es. has_id (entry_id e) x)"
    and "accepts J w STORAGE_KEY (JArray (json_of_Entry e # es))"
  shows "getEntries J (saveEntry J e w) = as_written (JArray (json_of_Entry e # es))"
proof -
  obtain s where s: "setItem STORAGE_KEY (JSON_stringify J 0 (JArray (json_of_Entry e # es)))
      (localStorage w) = Inr s"
    using accepts_Inr [OF assms(5)] by blast
  have "findIndex_id (entry_id e) es = Inr (- 1)"
    using assms(3,4) by (rule findIndex_id_absent)
  then have "saveEntry J e w = dispatchEvent ''zenledger-update'' (w\<lparr>localStorage := s\<rparr>)"
    using assms(2) s by (simp add: saveEntry_def)
  then show ?thesis
    using getEntries_after_write [OF assms(1) s] by (simp add: dispatchEvent_def)
qed

lemma saveEntry_existing:
  assumes "JSON_faithful J" "getEntries J w = JArray es"
    and "findIndex_id (entry_id e) es = Inr (int n)"
    and "accepts J w STORAGE_KEY (JArray (es[n := json_of_Entry e]))"
  shows "getEntries J (saveEntry J e w) = as_written (JArray (es[n := json_of_Entry e]))"
proof -
  obtain s where s: "setItem STORAGE_KEY (JSON_stringify J 0 (JArray (es[n := json_of_Entry e])))
      (localStorage w) = Inr s"
    using accepts_Inr [OF assms(4)] by blast
  have "saveEntry J e w = dispatchEvent ''zenledger-update'' (w\<lparr>localStorage := s\<rparr>)"
    using assms(2,3) s by (simp add: saveEntry_def)
  then show ?thesis
    using getEntries_after_write [OF assms(1) s] by (simp add: dispatchEvent_def)
qed

text \<open>
  Claim C6, as the code has it. Let the stored entries be an array \<open>es\<close> in which no \<^verbatim>\<open>null\<close>
  stands before the first element that has the id of \<open>e\<close> (nowhere, if none has it). If no
  stored entry has the id of \<open>e\<close> and the storage takes the write, the entries after
  \<open>saveEntry\<close> are \<open>e\<close> followed by \<open>es\<close>, as JSON writes them: a number that is not finite
  has become \<^verbatim>\<open>null\<close>. If some stored entry has the id, then at the first index \<open>n\<close> of such
  an entry, where the storage takes the write, the entries after \<open>saveEntry\<close> are \<open>es\<close> with
  \<open>e\<close> at index \<open>n\<close>, as JSON writes them, and their count is unchanged.
\<close>

theorem saveEntry_upsert:
  assumes "JSON_faithful J" and "getEntries J w = JArray es"
    and "readable_to (entry_id e) es"
  shows "(\<not> (\<exists>x\<in>set es. has_id (entry_id e) x) \<longrightarrow>
            accepts J w STORAGE_KEY (JArray (json_of_Entry e # es)) \<longrightarrow>
            getEntries J (saveEntry J e w) = as_written (JArray (json_of_Entry e # es))) \<and>
         ((\<exists>x\<in>set es. has_id (entry_id e) x) \<longrightarrow>
            (\<exists>n < length es.
               has_id (entry_id e) (es ! n) \<and> (\<forall>m < n. \<not> has_id (entry_id e) (es ! m)) \<and>
               (accepts J w STORAGE_KEY (JArray (es[n := json_of_Entry e])) \<longrightarrow>
                  getEntries J (saveEntry J e w) = as_written (JArray (es[n := json_of_Entry e])) \<and>
                  count_elements (getEntries J (saveEntry J e w)) = count_elements (getEntries J w))))"
proof (intro conjI impI)
  assume "\<not> (\<exists>x\<in>set es. has_id (entry_id e) x)"
    and "accepts J w STORAGE_KEY (JArray (json_of_Entry e # es))"
  with assms show "getEntries J (saveEntry J e w) = as_written (JArray (json_of_Entry e # es))"
    by (rule saveEntry_new)
next
  assume "\<exists>x\<in>set es. has_id (entry_id e) x"
  with assms(3) obtain n where n: "n < length es" "findIndex_id (entry_id e) es = Inr (int n)"
    "has_id (entry_id e) (es ! n)" "\<forall>m < n. \<not> has_id (entry_id e) (es ! m)"
    using findIndex_id_present by blast
  have "accepts J w STORAGE_KEY (JArray (es[n := json_of_Entry e])) \<longrightarrow>
      getEntries J (saveEntry J e w) = as_written (JArray (es[n := json_of_Entry e])) \<and>
      count_elements (getEntries J (saveEntry J e w)) = count_elements (getEntries J w)"
    using saveEntry_existing [OF assms(1,2) n(2)] assms(2) by simp
  with n show "\<exists>n < length es.
               has_id (entry_id e) (es ! n) \<and> (\<forall>m < n. \<not> has_id (entry_id e) (es ! m)) \<and>
               (accepts J w STORAGE_KEY (JArray (es[n := json_of_Entry e])) \<longrightarrow>
                  getEntries J (saveEntry J e w) = as_written (JArray (es[n := json_of_Entry e])) \<and>
                  count_elements (getEntries J (saveEntry J e w)) = count_elements (getEntries J w))"
    by blast
qed

lemma getEntries_stored_world: "getEntries Prefix_JSON stored_world = JArray stored_entries"
  by code_simp

lemma stored_entries_ids:
  "readable_to ''c'' stored_entries \<and> readable_to ''b'' stored_entries \<and>
   \<not> (\<exists>x\<in>set stored_entries. has_id ''c'' x) \<and>
   (\<exists>x\<in>set stored_entries. has_id ''b'' x)"
  by (simp add: stored_entries_def example_entries_def json_of_Entry_def has_id_def
      readable_to_def)

lemma stored_entries_written:
  "map as_written stored_entries = stored_entries"
  "as_written (json_of_Entry (example_entries ! 2)) = json_of_Entry (example_entries ! 2)"
  "as_written (json_of_Entry ((example_entries ! 1)\<lparr>amount := Finite 25\<rparr>)) =
     json_of_Entry ((example_entries ! 1)\<lparr>amount := Finite 25\<rparr>)"
  by code_simp+

lemma accepts_stored_world_new:
  "accepts Prefix_JSON stored_world STORAGE_KEY
     (JArray (json_of_Entry (example_entries ! 2) # stored_entries))"
  by code_simp

lemma accepts_stored_world_existing:
  "accepts Prefix_JSON stored_world STORAGE_KEY
     (JArray (stored_entries[n := json_of_Entry ((example_entries ! 1)\<lparr>amount := Finite 25\<rparr>)]))"
  if "n = 1"
  unfolding that by code_simp

lemma stored_entries_first_b:
  "n < length stored_entries \<Longrightarrow> has_id ''b'' (stored_entries ! n) \<Longrightarrow> n = 1"
  by (cases n) (simp_all add: stored_entries_def example_entries_def json_of_Entry_def has_id_def)

theorem saveEntry_upsert_witness:
  "JSON_faithful Prefix_JSON \<and> getEntries Prefix_JSON stored_world = JArray stored_entries \<and>
   readable_to (entry_id (example_entries ! 2)) stored_entries \<and>
   \<not> (\<exists>x\<in>set stored_entries. has_id (entry_id (example_entries ! 2)) x) \<and>
   accepts Prefix_JSON stored_world STORAGE_KEY
     (JArray (json_of_Entry (example_entries ! 2) # stored_entries)) \<and>
   getEntries Prefix_JSON (saveEntry Prefix_JSON (example_entries ! 2) stored_world) =
     JArray (json_of_Entry (example_entries ! 2) # stored_entries) \<and>
   readable_to (entry_id ((example_entries ! 1)\<lparr>amount := Finite 25\<rparr>)) stored_entries \<and>
   (\<exists>x\<in>set stored_entries. has_id (entry_id ((example_entries ! 1)\<lparr>amount := Finite 25\<rparr>)) x) \<and>
   accepts Prefix_JSON stored_world STORAGE_KEY
     (JArray (stored_entries[1 := json_of_Entry ((example_entries ! 1)\<lparr>amount := Finite 25\<rparr>)])) \<and>
   getEntries Prefix_JSON
     (saveEntry Prefix_JSON ((example_entries ! 1)\<lparr>amount := Finite 25\<rparr>) stored_world) =
     JArray (stored_entries[1 := json_of_Entry ((example_entries ! 1)\<lparr>amount := Finite 25\<rparr>)]) \<and>
   count_elements
     (getEntries Prefix_JSON
        (saveEntry Prefix_JSON ((example_entries ! 1)\<lparr>amount := Finite 25\<rparr>) stored_world)) = 2"
proof -
  let ?new = "example_entries ! 2"
  let ?old = "(example_entries ! 1)\<lparr>amount := Finite 25\<rparr>"
  have ids: "entry_id ?new = ''c''" "entry_id ?old = ''b''"
    by (simp_all add: example_entries_def)
  have len: "length stored_entries = 2"
    by (simp add: stored_entries_def example_entries_def)
  have new: "getEntries Prefix_JSON (saveEntry Prefix_JSON ?new stored_world) =
      JArray (json_of_Entry ?new # stored_entries)"
    using saveEntry_upsert [OF Prefix_JSON_faithful getEntries_stored_world, of ?new]
      stored_entries_ids accepts_stored_world_new ids stored_entries_written
    by simp
  obtain n where n: "n < length stored_entries" "has_id ''b'' (stored_entries ! n)"
    "accepts Prefix_JSON stored_world STORAGE_KEY (JArray (stored_entries[n := json_of_Entry ?old])) \<longrightarrow>
     getEntries Prefix_JSON (saveEntry Prefix_JSON ?old stored_world) =
       as_written (JArray (stored_entries[n := json_of_Entry ?old])) \<and>
     count_elements (getEntries Prefix_JSON (saveEntry Prefix_JSON ?old stored_world)) =
       count_elements (getEntries Prefix_JSON stored_world)"
    using saveEntry_upsert [OF Prefix_JSON_faithful getEntries_stored_world, of ?old]
      stored_entries_ids ids
    by auto
  have "n = 1" using n(1,2) by (rule stored_entries_first_b)
  then have old: "getEntries Prefix_JSON (saveEntry Prefix_JSON ?old stored_world) =
       JArray (stored_entries[1 := json_of_Entry ?old])"
    "count_elements (getEntries Prefix_JSON (saveEntry Prefix_JSON ?old stored_world)) = 2"
    using n(3) accepts_stored_world_existing [of 1] getEntries_stored_world len
      stored_entries_written
    by (simp_all add: map_update)
  show ?thesis
    using Prefix_JSON_faithful getEntries_stored_world stored_entries_ids ids new old
      accepts_stored_world_new accepts_stored_world_existing [of 1]
    by simp
qed

text \<open>
  The claim as stated promises the upsert for every stored collection. Four stored states
  on which \<open>saveEntry\<close> of a new entry, whose id is \<open>c\<close>, does not leave that entry
  followed by the previous entries. Where the stored array begins with \<^verbatim>\<open>null\<close>, reading
  the \<^verbatim>\<open>id\<close> of that element throws: the function alerts and stores nothing. Where the
  stored value is an object, it has no \<^verbatim>\<open>findIndex\<close>: the same. Where the storage refuses
  the write: the same. Where a stored entry holds the amount \<^verbatim>\<open>Infinity\<close>, the new entry is
  stored and that amount is rewritten as \<^verbatim>\<open>null\<close>.
\<close>

theorem saveEntry_upsert_counterexample:
  "entry_id (example_entries ! 2) = ''c'' \<and>
   getEntries Prefix_JSON null_world = JArray null_entries \<and>
   filter (has_id ''c'') null_entries = [] \<and>
   saveEntry Prefix_JSON (example_entries ! 2) null_world =
     alert ''Failed to save entry. Storage might be full.'' null_world \<and>
   getEntries Prefix_JSON (saveEntry Prefix_JSON (example_entries ! 2) null_world) =
     JArray null_entries \<and>
   getEntries Prefix_JSON object_world = JObject [] \<and>
   saveEntry Prefix_JSON (example_entries ! 2) object_world =
     alert ''Failed to save entry. Storage might be full.'' object_world \<and>
   getEntries Prefix_JSON (saveEntry Prefix_JSON (example_entries ! 2) object_world) =
     JObject [] \<and>
   getEntries Prefix_JSON full_world = JArray stored_entries \<and>
   JNull \<notin> set stored_entries \<and>
   filter (has_id ''c'') stored_entries = [] \<and>
   saveEntry Prefix_JSON (example_entries ! 2) full_world =
     alert ''Failed to save entry. Storage might be full.'' full_world \<and>
   getEntries Prefix_JSON (saveEntry Prefix_JSON (example_entries ! 2) full_world) =
     JArray stored_entries \<and>
   getEntries Prefix_JSON overflow_world = JArray (overflow_entries (JNumber Infinity)) \<and>
   JNull \<notin> set (overflow_entries (JNumber Infinity)) \<and>
   filter (has_id ''c'') (overflow_entries (JNumber Infinity)) = [] \<and>
   getEntries Prefix_JSON (saveEntry Prefix_JSON (example_entries ! 2) overflow_world) =
     JArray (json_of_Entry (example_entries ! 2) # overflow_entries JNull) \<and>
   overflow_entries JNull \<noteq> overflow_entries (JNumber Infinity)"
  by code_simp

subsection \<open>Deleting an entry\<close>

lemma deleteEntry_absent:
  assumes "getEntries J w = JArray es" "readable_to i es"
    and "\<not> (\<exists>x\<in>set es. has_id i x)"
  shows "deleteEntry J i w = (Normal (), w)"
proof -
  have "findIndex_id i es = Inr (- 1)"
    using assms(2,3) by (rule findIndex_id_absent)
  with assms(1) show ?thesis by (simp add: deleteEntry_def)
qed

lemma deleteEntry_present:
  assumes "JSON_faithful J" "getEntries J w = JArray es" "i \<noteq> []"
    and "findIndex_id i es = Inr (int n)"
    and "accepts J w STORAGE_KEY (JArray (splice1 es n))"
  shows "fst (deleteEntry J i w) = Normal () \<and>
         getEntries J (snd (deleteEntry J i w)) =
           as_written (JArray (take n es @ drop (Suc n) es))"
proof -
  obtain s where s: "setItem STORAGE_KEY (JSON_stringify J 0 (JArray (splice1 es n)))
      (localStorage w) = Inr s"
    using accepts_Inr [OF assms(5)] by blast
  have "deleteEntry J i w = (Normal (), dispatchEvent ''zenledger-update'' (w\<lparr>localStorage := s\<rparr>))"
    using assms(2,3,4) s by (simp add: deleteEntry_def)
  then show ?thesis
    using getEntries_after_write [OF assms(1) s] by (simp add: dispatchEvent_def splice1_def)
qed

text \<open>
  Claim C7, as the code has it. Let the stored entries be an array \<open>es\<close> in which no \<^verbatim>\<open>null\<close>
  stands before the first element that has the id (nowhere, if none has it).
  \<open>deleteEntry\<close> with the empty id returns at once and changes nothing. With an id that
  no stored entry has it returns normally and changes nothing. With a non-empty id that
  some stored entry has, at the first index \<open>n\<close> of such an entry and where the storage
  takes the write, it returns normally and the entries are \<open>es\<close> without the element at
  index \<open>n\<close>, the others in their order and as JSON writes them: a number that is not
  finite has become \<^verbatim>\<open>null\<close>.
\<close>

theorem deleteEntry_removes:
  assumes "JSON_faithful J" and "getEntries J w = JArray es" and "readable_to i es"
  shows "deleteEntry J [] w = (Normal (), w) \<and>
         (\<not> (\<exists>x\<in>set es. has_id i x) \<longrightarrow> deleteEntry J i w = (Normal (), w)) \<and>
         (i \<noteq> [] \<longrightarrow> (\<exists>x\<in>set es. has_id i x) \<longrightarrow>
            (\<exists>n < length es.
               has_id i (es ! n) \<and> (\<forall>m < n. \<not> has_id i (es ! m)) \<and>
               (accepts J w STORAGE_KEY (JArray (take n es @ drop (Suc n) es)) \<longrightarrow>
                  fst (deleteEntry J i w) = Normal () \<and>
                  getEntries J (snd (deleteEntry J i w)) =
                    as_written (JArray (take n es @ drop (Suc n) es)))))"
proof (intro conjI impI)
  show "deleteEntry J [] w = (Normal (), w)"
    by (simp add: deleteEntry_def)
next
  assume "\<not> (\<exists>x\<in>set es. has_id i x)"
  with assms(2,3) show "deleteEntry J i w = (Normal (), w)"
    by (rule deleteEntry_absent)
next
  assume i: "i \<noteq> []" and "\<exists>x\<in>set es. has_id i x"
  with assms(3) obtain n where n: "n < length es" "findIndex_id i es = Inr (int n)"
    "has_id i (es ! n)" "\<forall>m < n. \<not> has_id i (es ! m)"
    using findIndex_id_present by blast
  have "accepts J w STORAGE_KEY (JArray (take n es @ drop (Suc n) es)) \<longrightarrow>
      fst (deleteEntry J i w) = Normal () \<and>
      getEntries J (snd (deleteEntry J i w)) = as_written (JArray (take n es @ drop (Suc n) es))"
    using deleteEntry_present [OF assms(1,2) i n(2)] by (simp add: splice1_def)
  with n show "\<exists>n < length es.
               has_id i (es ! n) \<and> (\<forall>m < n. \<not> has_id i (es ! m)) \<and>
               (accepts J w STORAGE_KEY (JArray (take n es @ drop (Suc n) es)) \<longrightarrow>
                  fst (deleteEntry J i w) = Normal () \<and>
                  getEntries J (snd (deleteEntry J i w)) =
                    as_written (JArray (take n es @ drop (Suc n) es)))"
    by blast
qed

lemma accepts_stored_world_delete:
  "accepts Prefix_JSON stored_world STORAGE_KEY (JArray (take n stored_entries @ drop (Suc n) stored_entries))"
  if "n = 1"
  unfolding that by code_simp

lemma stored_entries_rest:
  "as_written (JArray (take 1 stored_entries @ drop (Suc 1) stored_entries)) =
     JArray [json_of_Entry (example_entries ! 0)]"
  by code_simp

theorem deleteEntry_removes_witness:
  "JSON_faithful Prefix_JSON \<and> getEntries Prefix_JSON stored_world = JArray stored_entries \<and>
   readable_to ''c'' stored_entries \<and> readable_to ''b'' stored_entries \<and>
   deleteEntry Prefix_JSON [] stored_world = (Normal (), stored_world) \<and>
   \<not> (\<exists>x\<in>set stored_entries. has_id ''c'' x) \<and>
   deleteEntry Prefix_JSON ''c'' stored_world = (Normal (), stored_world) \<and>
   (\<exists>x\<in>set stored_entries. has_id ''b'' x) \<and>
   accepts Prefix_JSON stored_world STORAGE_KEY (JArray (take 1 stored_entries @ drop 2 stored_entries)) \<and>
   fst (deleteEntry Prefix_JSON ''b'' stored_world) = Normal () \<and>
   getEntries Prefix_JSON (snd (deleteEntry Prefix_JSON ''b'' stored_world)) =
     JArray [json_of_Entry (example_entries ! 0)]"
proof -
  have r: "readable_to ''c'' stored_entries" "readable_to ''b'' stored_entries"
    using stored_entries_ids by simp_all
  have absent: "deleteEntry Prefix_JSON [] stored_world = (Normal (), stored_world)"
    "deleteEntry Prefix_JSON ''c'' stored_world = (Normal (), stored_world)"
    using deleteEntry_removes [OF Prefix_JSON_faithful getEntries_stored_world r(1)]
      stored_entries_ids
    by simp_all
  obtain n where n: "n < length stored_entries" "has_id ''b'' (stored_entries ! n)"
    "accepts Prefix_JSON stored_world STORAGE_KEY
       (JArray (take n stored_entries @ drop (Suc n) stored_entries)) \<longrightarrow>
     fst (deleteEntry Prefix_JSON ''b'' stored_world) = Normal () \<and>
     getEntries Prefix_JSON (snd (deleteEntry Prefix_JSON ''b'' stored_world)) =
       as_written (JArray (take n stored_entries @ drop (Suc n) stored_entries))"
    using deleteEntry_removes [OF Prefix_JSON_faithful getEntries_stored_world r(2)]
      stored_entries_ids
    by auto
  have n1: "n = 1" using n(1,2) by (rule stored_entries_first_b)
  have acc1: "accepts Prefix_JSON stored_world STORAGE_KEY
      (JArray (take 1 stored_entries @ drop (Suc 1) stored_entries))"
    using accepts_stored_world_delete [of 1] by simp
  then have acc: "accepts Prefix_JSON stored_world STORAGE_KEY
      (JArray (take 1 stored_entries @ drop 2 stored_entries))"
    by (simp add: numeral_2_eq_2)
  have "fst (deleteEntry Prefix_JSON ''b'' stored_world) = Normal () \<and>
      getEntries Prefix_JSON (snd (deleteEntry Prefix_JSON ''b'' stored_world)) =
        as_written (JArray (take 1 stored_entries @ drop (Suc 1) stored_entries))"
    using n(3) acc1 unfolding n1 by blast
  then have present: "fst (deleteEntry Prefix_JSON ''b'' stored_world) = Normal ()"
    "getEntries Prefix_JSON (snd (deleteEntry Prefix_JSON ''b'' stored_world)) =
       JArray [json_of_Entry (example_entries ! 0)]"
    unfolding stored_entries_rest by blast+
  show ?thesis
    using Prefix_JSON_faithful getEntries_stored_world stored_entries_ids absent present acc
    by simp
qed

text \<open>
  The claim as stated promises that an absent id never fails and that a present id is
  removed, for every stored collection. Six stored states on which it does not hold. The
  guard \<^verbatim>\<open>if (!id) return\<close> keeps an entry whose id is the empty string. Where the stored
  array begins with \<^verbatim>\<open>null\<close>, \<open>deleteEntry\<close> of an absent id throws a TypeError, reading
  the \<^verbatim>\<open>id\<close> of that element; where the stored value is an object, it throws one as well,
  for want of \<^verbatim>\<open>findIndex\<close>. Where the storage refuses the write, \<open>deleteEntry\<close> of a
  present id throws and removes nothing. Where another entry holds the amount
  \<^verbatim>\<open>Infinity\<close>, that amount is rewritten as \<^verbatim>\<open>null\<close>. Where two entries share the id, the
  first is removed and the second stays.
\<close>

theorem deleteEntry_removes_counterexample:
  "getEntries Prefix_JSON empty_id_world = JArray [JObject [(''id'', JString [])]] \<and>
   has_id [] (JObject [(''id'', JString [])]) \<and>
   getEntries Prefix_JSON (snd (deleteEntry Prefix_JSON [] empty_id_world)) =
     JArray [JObject [(''id'', JString [])]] \<and>
   getEntries Prefix_JSON null_world = JArray null_entries \<and>
   filter (has_id ''c'') null_entries = [] \<and>
   deleteEntry Prefix_JSON ''c'' null_world = (Throw TypeError, null_world) \<and>
   getEntries Prefix_JSON object_world = JObject [] \<and>
   deleteEntry Prefix_JSON ''c'' object_world = (Throw TypeError, object_world) \<and>
   getEntries Prefix_JSON full_world = JArray stored_entries \<and>
   JNull \<notin> set stored_entries \<and>
   has_id ''b'' (stored_entries ! 1) \<and>
   deleteEntry Prefix_JSON ''b'' full_world = (Throw QuotaExceededError, full_world) \<and>
   getEntries Prefix_JSON overflow_world = JArray (overflow_entries (JNumber Infinity)) \<and>
   JNull \<notin> set (overflow_entries (JNumber Infinity)) \<and>
   has_id ''e2'' (overflow_entries (JNumber Infinity) ! 1) \<and>
   fst (deleteEntry Prefix_JSON ''e2'' overflow_world) = Normal () \<and>
   getEntries Prefix_JSON (snd (deleteEntry Prefix_JSON ''e2'' overflow_world)) =
     JArray [overflow_entries JNull ! 0] \<and>
   overflow_entries JNull ! 0 \<noteq> overflow_entries (JNumber Infinity) ! 0 \<and>
   getEntries Prefix_JSON twin_world = JArray twin_entries \<and>
   has_id ''b'' (twin_entries ! 0) \<and>
   JNull \<notin> set twin_entries \<and>
   fst (deleteEntry Prefix_JSON ''b'' twin_world) = Normal () \<and>
   getEntries Prefix_JSON (snd (deleteEntry Prefix_JSON ''b'' twin_world)) =
     JArray [twin_entries ! 1] \<and>
   has_id ''b'' (twin_entries ! 1)"
  by code_simp

subsection \<open>The floor of one category\<close>





lemma getCategories_after_write:
  assumes "JSON_faithful J"
    and "setItem CATEGORY_STORAGE_KEY (JSON_stringify J 0 v) s0 = Inr s"
    and "localStorage w' = s"
  shows "getCategories J w' = (as_written v, w')"
proof -
  have "getItem s CATEGORY_STORAGE_KEY = Inr (Some (JSON_stringify J 0 v))"
    using getItem_setItem [OF assms(2), of CATEGORY_STORAGE_KEY] by simp
  then show ?thesis
    using assms(1,3) by (simp add: getCategories_def JSON_faithful_def)
qed
















text \<open>Deleting every built-in category in turn leaves the last one standing.\<close>

lemma deleteCategories_example:
  "fst (getCategories Prefix_JSON
          (deleteCategories Prefix_JSON
             [''1'', ''2'', ''x'', ''3'', ''4'', ''5'', ''6'', ''7'', ''8'', ''8'']
             (fresh_world 5000))) =
     JArray [json_of_Category (DEFAULT_EXPENSE_CATEGORIES ! 7)]"
  by code_simp

subsection \<open>Export, then import\<close>

text \<open>
  Reading the categories writes at most the built-in categories under the categories
  key: the entries read the same afterwards, and so do the categories.
\<close>

lemma getCategories_storage:
  "localStorage (snd (getCategories J w)) = localStorage w \<or>
   (Map_get (items (localStorage w)) CATEGORY_STORAGE_KEY \<in> {None, Some []} \<and>
    setItem CATEGORY_STORAGE_KEY (JSON_stringify J 0 DEFAULTS) (localStorage w) =
      Inr (localStorage (snd (getCategories J w))))"
  by (auto simp: getCategories_def getItem_def split: sum.splits option.splits if_splits
      elim!: truthy_text.elims)

lemma getEntries_after_getCategories:
  "getEntries J (snd (getCategories J w)) = getEntries J w"
proof -
  have "getItem (localStorage (snd (getCategories J w))) STORAGE_KEY =
      getItem (localStorage w) STORAGE_KEY"
    using getCategories_storage [of J w] keys_differ
    by (auto simp: getItem_def Map_get_Map_set dest!: setItem_Inr)
  then show ?thesis by (simp add: getEntries_def)
qed

lemma getCategories_fst_cong:
  "localStorage w' = localStorage w \<Longrightarrow> fst (getCategories J w') = fst (getCategories J w)"
  by (auto simp: getCategories_def split: sum.splits option.splits)

lemma as_written_DEFAULTS: "as_written DEFAULTS = DEFAULTS"
  by code_simp

lemma getCategories_again:
  assumes "JSON_faithful J"
  shows "fst (getCategories J (snd (getCategories J w))) = fst (getCategories J w)"
proof -
  let ?w1 = "snd (getCategories J w)"
  consider (same) "localStorage ?w1 = localStorage w"
    | (seeded) "Map_get (items (localStorage w)) CATEGORY_STORAGE_KEY \<in> {None, Some []}"
      "setItem CATEGORY_STORAGE_KEY (JSON_stringify J 0 DEFAULTS) (localStorage w) =
        Inr (localStorage ?w1)"
    using getCategories_storage [of J w] by blast
  then show ?thesis
  proof cases
    case same
    then show ?thesis by (rule getCategories_fst_cong)
  next
    case seeded
    have "getCategories J ?w1 = (as_written DEFAULTS, ?w1)"
      using assms seeded(2) by (rule getCategories_after_write) simp
    then have "getCategories J ?w1 = (DEFAULTS, ?w1)"
      by (simp only: as_written_DEFAULTS)
    moreover have "fst (getCategories J w) = DEFAULTS"
      using seeded
      by (auto simp: getCategories_def getItem_def split: sum.splits dest!: setItem_Inr)
    ultimately show ?thesis by simp
  qed
qed

text \<open>
  Claim C3, as the code has it. Let the stored collections be arrays: \<open>getEntries\<close> returns
  the array \<open>es\<close> and \<open>getCategories\<close> the array \<open>cs\<close>. Let \<open>exportData\<close> return the text
  \<open>backup\<close> and leave the world \<open>w1\<close>, and let the storage take the two writes of the
  import. Then \<open>importData\<close> on \<open>backup\<close> returns true, and in the world it leaves
  \<open>getEntries\<close> and \<open>getCategories\<close> return what they returned before the export, element
  for element and in the same order, as JSON writes it: a number that is not finite has
  become \<^verbatim>\<open>null\<close>. The export itself changes neither.
\<close>

theorem export_import_roundtrip:
  assumes "JSON_faithful J"
    and "getEntries J w = JArray es" and "fst (getCategories J w) = JArray cs"
    and "exportData J now w = (backup, w1)"
    and "setItem STORAGE_KEY (JSON_stringify J 0 (as_written (JArray es))) (localStorage w1)
           = Inr s1"
    and "setItem CATEGORY_STORAGE_KEY (JSON_stringify J 0 (as_written (JArray cs))) s1 = Inr s2"
  shows "\<exists>w2. importData J backup w1 = (True, w2) \<and>
              getEntries J w2 = as_written (getEntries J w) \<and>
              getEntries J w1 = getEntries J w \<and>
              fst (getCategories J w2) = as_written (fst (getCategories J w)) \<and>
              fst (getCategories J w1) = fst (getCategories J w)"
proof -
  let ?doc = "JObject [(''entries'', JArray es), (''categories'', JArray cs),
                       (''exportedAt'', JString now), (''appName'', JString ''ZenLedger''),
                       (''version'', JNumber (Finite 1))]"
  let ?w2 = "dispatchEvent ''zenledger-categories-update''
               (dispatchEvent ''zenledger-update'' (w1\<lparr>localStorage := s2\<rparr>))"
  have p: "\<And>n v. JSON_parse J (JSON_stringify J n v) = Some (as_written v)"
    using assms(1) by (simp add: JSON_faithful_def)
  have w1: "w1 = snd (getCategories J w)" and backup: "backup = JSON_stringify J 2 ?doc"
    using assms(2,3,4) by (auto simp: exportData_def split: prod.splits)
  have imp: "importData J backup w1 = (True, ?w2)"
    using assms(5,6) by (simp add: backup importData_def p property_or_undefined_def)
  have "getItem s2 STORAGE_KEY = Inr (Some (JSON_stringify J 0 (as_written (JArray es))))"
    using getItem_setItem [OF assms(6), of STORAGE_KEY] setItem_Inr [OF assms(5)] keys_differ
    by (simp add: Map_get_Map_set)
  then have "getEntries J ?w2 = as_written (as_written (JArray es))"
    using assms(1)
    by (simp add: getEntries_def dispatchEvent_def JSON_faithful_def del: as_written.simps)
  then have e2: "getEntries J ?w2 = as_written (JArray es)"
    by (simp only: as_written_idem)
  have "getCategories J ?w2 = (as_written (as_written (JArray cs)), ?w2)"
    using assms(1,6) by (rule getCategories_after_write) (simp add: dispatchEvent_def)
  then have c2: "getCategories J ?w2 = (as_written (JArray cs), ?w2)"
    by (simp only: as_written_idem)
  have e1: "getEntries J w1 = getEntries J w"
    unfolding w1 by (rule getEntries_after_getCategories)
  have c1: "fst (getCategories J w1) = fst (getCategories J w)"
    unfolding w1 using assms(1) by (rule getCategories_again)
  show ?thesis
    using imp e2 c2 e1 c1 assms(2,3) by (simp del: as_written.simps)
qed

lemma getCategories_stored_world:
  "getCategories Prefix_JSON stored_world = (JArray stored_categories, stored_world)"
  by code_simp

lemma stored_world_rewrite:
  "setItem STORAGE_KEY (JSON_stringify Prefix_JSON 0 (as_written (JArray stored_entries)))
     (localStorage stored_world) = Inr (localStorage stored_world)"
  "setItem CATEGORY_STORAGE_KEY
     (JSON_stringify Prefix_JSON 0 (as_written (JArray stored_categories)))
     (localStorage stored_world) = Inr (localStorage stored_world)"
  by code_simp+

lemma stored_world_written:
  "as_written (JArray stored_entries) = JArray stored_entries"
  "as_written (JArray stored_categories) = JArray stored_categories"
  by code_simp+

theorem export_import_roundtrip_witness:
  "JSON_faithful Prefix_JSON \<and>
   getEntries Prefix_JSON stored_world = JArray stored_entries \<and>
   fst (getCategories Prefix_JSON stored_world) = JArray stored_categories \<and>
   snd (exportData Prefix_JSON ''2024-05-21T08:00:00.000Z'' stored_world) = stored_world \<and>
   (\<exists>w2. importData Prefix_JSON
            (fst (exportData Prefix_JSON ''2024-05-21T08:00:00.000Z'' stored_world)) stored_world
            = (True, w2) \<and>
          getEntries Prefix_JSON w2 = JArray stored_entries \<and>
          fst (getCategories Prefix_JSON w2) = JArray stored_categories)"
proof -
  let ?now = "''2024-05-21T08:00:00.000Z''"
  have sx: "snd (exportData Prefix_JSON ?now stored_world) = stored_world"
    by (simp add: exportData_def getCategories_stored_world)
  then have x: "exportData Prefix_JSON ?now stored_world =
      (fst (exportData Prefix_JSON ?now stored_world), stored_world)"
    by (metis prod.collapse)
  have c: "fst (getCategories Prefix_JSON stored_world) = JArray stored_categories"
    by (simp add: getCategories_stored_world)
  obtain w2 where "importData Prefix_JSON (fst (exportData Prefix_JSON ?now stored_world))
        stored_world = (True, w2)"
    "getEntries Prefix_JSON w2 = as_written (getEntries Prefix_JSON stored_world)"
    "fst (getCategories Prefix_JSON w2) = as_written (fst (getCategories Prefix_JSON stored_world))"
    using export_import_roundtrip [OF Prefix_JSON_faithful getEntries_stored_world c x
        stored_world_rewrite]
    by blast
  then have "\<exists>w2. importData Prefix_JSON (fst (exportData Prefix_JSON ?now stored_world))
        stored_world = (True, w2) \<and>
      getEntries Prefix_JSON w2 = JArray stored_entries \<and>
      fst (getCategories Prefix_JSON w2) = JArray stored_categories"
    unfolding getEntries_stored_world c stored_world_written by blast
  then show ?thesis
    using Prefix_JSON_faithful getEntries_stored_world c sx by blast
qed

text \<open>
  The claim as stated promises the round trip for every stored state. Three stored states
  on which it does not hold. Where the stored entries are an object, the export carries
  it and \<open>importData\<close> rejects the backup. Where the storage refuses the write,
  \<open>importData\<close> returns false. Where a stored entry holds the amount \<^verbatim>\<open>Infinity\<close>,
  \<open>importData\<close> returns true and the amount is \<^verbatim>\<open>null\<close> afterwards.
\<close>

theorem export_import_roundtrip_counterexample:
  "getEntries Prefix_JSON object_world = JObject [] \<and>
   fst (importData Prefix_JSON
          (fst (exportData Prefix_JSON ''2024-05-21T08:00:00.000Z'' object_world))
          (snd (exportData Prefix_JSON ''2024-05-21T08:00:00.000Z'' object_world))) = False \<and>
   getEntries Prefix_JSON full_world = JArray stored_entries \<and>
   fst (getCategories Prefix_JSON full_world) = JArray stored_categories \<and>
   fst (importData Prefix_JSON
          (fst (exportData Prefix_JSON ''2024-05-21T08:00:00.000Z'' full_world))
          (snd (exportData Prefix_JSON ''2024-05-21T08:00:00.000Z'' full_world))) = False \<and>
   getEntries Prefix_JSON overflow_world = JArray (overflow_entries (JNumber Infinity)) \<and>
   fst (getCategories Prefix_JSON overflow_world) = JArray stored_categories \<and>
   fst (importData Prefix_JSON
          (fst (exportData Prefix_JSON ''2024-05-21T08:00:00.000Z'' overflow_world))
          (snd (exportData Prefix_JSON ''2024-05-21T08:00:00.000Z'' overflow_world))) = True \<and>
   getEntries Prefix_JSON
     (snd (importData Prefix_JSON
             (fst (exportData Prefix_JSON ''2024-05-21T08:00:00.000Z'' overflow_world))
             (snd (exportData Prefix_JSON ''2024-05-21T08:00:00.000Z'' overflow_world)))) =
     JArray (overflow_entries JNull) \<and>
   overflow_entries JNull \<noteq> overflow_entries (JNumber Infinity)"
  by code_simp

end
